theory Spec2Isabelle
  imports Complex_Main "HOL-Library.Word"
begin

unbundle bit_operations_syntax

section \<open>The SA32 driver session: data model\<close>

text \<open>
  A shallow embedding of \<^verbatim>\<open>sa32_driver.py\<close>. A driver object is a record that every
  method takes and returns; a raised exception is the \<open>Inl\<close> of a sum. Python's
  \<^verbatim>\<open>int\<close> is \<open>int\<close>, \<^verbatim>\<open>float\<close> parameters that the driver only stores and
  passes on (timeout, reconnect delay) are \<open>real\<close>. Calls to the logger have no effect
  on the driver and are left out. Message texts are written without accents, and the
  values that an f-string interpolates from numbers are left out of the text.
\<close>

subsection \<open>Errors\<close>

record EquipmentError =
  status :: bool
  code :: int
  source :: string

text \<open>\<^verbatim>\<open>EquipmentError()\<close>: the dataclass defaults.\<close>

definition EquipmentError_default :: EquipmentError where
  "EquipmentError_default = \<lparr>status = False, code = 0, source = ''''\<rparr>"

text \<open>
  The exception classes that can travel through the driver. \<open>ModbusException\<close> is the
  library's class (its \<open>ConnectionException\<close> is a subclass); \<open>OtherException\<close> stands
  for every other subclass of \<open>Exception\<close> (\<open>OSError\<close>, \<open>AttributeError\<close>, ...).
\<close>

datatype py_exception =
    SA32ConnectionError string
  | SA32CommunicationError string
  | SA32ConfigurationError string
  | ModbusException string
  | ImportError string
  | ValueError string
  | OverflowError string
  | StructError string
  | OtherException string

text \<open>\<^verbatim>\<open>str(e)\<close>\<close>

fun str_exc :: "py_exception \<Rightarrow> string" where
  "str_exc (SA32ConnectionError m) = m"
| "str_exc (SA32CommunicationError m) = m"
| "str_exc (SA32ConfigurationError m) = m"
| "str_exc (ModbusException m) = m"
| "str_exc (ImportError m) = m"
| "str_exc (ValueError m) = m"
| "str_exc (OverflowError m) = m"
| "str_exc (StructError m) = m"
| "str_exc (OtherException m) = m"

text \<open>\<^verbatim>\<open>isinstance(e, ModbusException)\<close>, what \<^verbatim>\<open>except ModbusException\<close> tests.\<close>

fun is_ModbusException :: "py_exception \<Rightarrow> bool" where
  "is_ModbusException (ModbusException m) = True"
| "is_ModbusException e = False"

subsection \<open>Configuration and session\<close>

datatype ModbusProtocol = TCP | RTU

datatype modbus_client = ModbusTcpClient | ModbusSerialClient

text \<open>The constructor's parameters (\<^verbatim>\<open>log_level\<close> apart).\<close>

record config =
  protocol :: string
  host :: string
  port :: "string + int"
  slave_id :: int
  baudrate :: int
  parity :: string
  stopbits :: int
  bytesize :: int
  timeout :: real
  auto_reconnect :: bool
  reconnect_delay :: real
  max_reconnect_attempts :: int
  mock_mode :: bool

text \<open>What a callback receives: nothing, the last error, or the address and values read.\<close>

datatype payload =
    NoData
  | ErrorData EquipmentError
  | RegisterData int "int list"

datatype request =
    ReadHolding int int int
  | ReadInput int int int
  | WriteSingle int int int
  | WriteMultiple int "int list" int

text \<open>
  The effects of a method on the outside, in the order they happen: the lock taken and
  released, the calls on the Modbus client, the sleeps, and the dispatch of an event to the
  callbacks registered for it (the callbacks, by identity, in the order they are called).
\<close>

datatype event =
    LockAcquire
  | LockRelease
  | ClientCreate modbus_client
  | ClientConnect
  | ClientClose
  | ClientRequest request
  | Sleep real
  | Dispatch string payload "nat list"

text \<open>
  The driver object: the configuration, then the private attributes
  (\<open>protocol_enum\<close> is \<^verbatim>\<open>self.protocol\<close>, the parsed enum); \<open>trace\<close> is the list of
  effects so far and \<open>tick\<close> counts the calls made to the outside.
\<close>

record session = config +
  protocol_enum :: ModbusProtocol
  client :: "modbus_client option"
  connected :: bool
  callbacks :: "string \<rightharpoonup> nat list"
  mock_registers :: "int \<rightharpoonup> int"
  last_error :: EquipmentError
  trace :: "event list"
  tick :: nat

subsection \<open>The outside world\<close>

text \<open>
  What the Modbus library and the random generator answer, as functions of the number of
  calls made so far. A response is an error response (\<^verbatim>\<open>isError()\<close> holds) with its
  \<^verbatim>\<open>exception_code\<close> when it has that attribute and its text, or a normal one with
  its registers.
\<close>

datatype response =
    ErrorResponse "int option" string
  | OkResponse "int list"

datatype connect_outcome = ConnectReturns bool | ConnectRaises py_exception

datatype request_outcome = Returns response | Raises py_exception

record world =
  construct_result :: "nat \<Rightarrow> py_exception option"
  connect_result :: "nat \<Rightarrow> connect_outcome"
  close_result :: "nat \<Rightarrow> py_exception option"
  request_result :: "nat \<Rightarrow> request_outcome"
  randint :: "nat \<Rightarrow> 16 word"

definition emit :: "event \<Rightarrow> session \<Rightarrow> session" where
  "emit e s = s\<lparr>trace := trace s @ [e]\<rparr>"

definition external_call :: "event \<Rightarrow> session \<Rightarrow> session" where
  "external_call e s = s\<lparr>trace := trace s @ [e], tick := Suc (tick s)\<rparr>"

text \<open>\<^verbatim>\<open>with self._lock:\<close> the lock is released on every way out of the block.\<close>

definition with_lock :: "(session \<Rightarrow> 'a \<times> session) \<Rightarrow> session \<Rightarrow> 'a \<times> session" where
  "with_lock body s = (case body (emit LockAcquire s) of (r, s') \<Rightarrow> (r, emit LockRelease s'))"

section \<open>Construction\<close>

text \<open>
  \<^verbatim>\<open>str.upper()\<close> on ASCII letters. No other character has an upper case among
  the letters of \<^verbatim>\<open>TCP\<close>, \<^verbatim>\<open>RTU\<close>, \<^verbatim>\<open>N\<close>, \<^verbatim>\<open>E\<close> and \<^verbatim>\<open>O\<close>, the
  only strings the result is compared with.
\<close>

definition char_upper :: "char \<Rightarrow> char" where
  "char_upper c =
     (let n = (of_char c :: nat) in if 97 \<le> n \<and> n \<le> 122 then char_of (n - 32) else c)"

definition upper :: "string \<Rightarrow> string" where
  "upper s = map char_upper s"

definition valid_baudrates :: "int list" where
  "valid_baudrates = [1200, 2400, 4800, 9600, 19200, 38400, 57600, 115200]"

definition validate_config ::
  "string \<Rightarrow> int \<Rightarrow> int \<Rightarrow> int \<Rightarrow> string \<Rightarrow> int \<Rightarrow> py_exception + unit" where
  "validate_config protocol' slave_id' baudrate' bytesize' parity' stopbits' =
     (if upper protocol' \<notin> set [''TCP'', ''RTU''] then
        Inl (SA32ConfigurationError ''Protocole invalide'')
      else if \<not> (1 \<le> slave_id' \<and> slave_id' \<le> 247) then
        Inl (SA32ConfigurationError ''Slave ID invalide'')
      else if baudrate' \<notin> set valid_baudrates then
        Inl (SA32ConfigurationError ''Baudrate invalide'')
      else if bytesize' \<notin> set [7, 8] then
        Inl (SA32ConfigurationError ''Bytesize invalide'')
      else if upper parity' \<notin> set [''N'', ''E'', ''O''] then
        Inl (SA32ConfigurationError ''Parite invalide'')
      else if stopbits' \<notin> set [1, 2] then
        Inl (SA32ConfigurationError ''Stop bits invalide'')
      else Inr ())"

text \<open>\<^verbatim>\<open>ModbusProtocol[name]\<close>, after validation.\<close>

definition ModbusProtocol_of :: "string \<Rightarrow> ModbusProtocol" where
  "ModbusProtocol_of name = (if name = ''TCP'' then TCP else RTU)"

definition initial_callbacks :: "string \<rightharpoonup> nat list" where
  "initial_callbacks =
     [''on_connect'' \<mapsto> [], ''on_disconnect'' \<mapsto> [], ''on_error'' \<mapsto> [],
      ''on_data_received'' \<mapsto> []]"

text \<open>The attributes that \<^verbatim>\<open>__init__\<close> sets once the configuration is accepted.\<close>

definition new_session :: "config \<Rightarrow> session" where
  "new_session c =
     config.extend c
       (session.fields (ModbusProtocol_of (upper (protocol c))) None False
          initial_callbacks Map.empty EquipmentError_default [] 0)"

text \<open>
  \<^verbatim>\<open>SA32Driver.__init__\<close>. \<open>pymodbus_available\<close> is the module's
  \<^verbatim>\<open>PYMODBUS_AVAILABLE\<close>. An exception leaves no object behind.
\<close>

definition init :: "bool \<Rightarrow> config \<Rightarrow> py_exception + session" where
  "init pymodbus_available c =
     (if \<not> pymodbus_available \<and> \<not> mock_mode c then
        Inl (ImportError ''Le module pymodbus est requis.'')
      else
        case validate_config (protocol c) (slave_id c) (baudrate c) (bytesize c) (parity c)
               (stopbits c) of
          Inl e \<Rightarrow> Inl e
        | Inr _ \<Rightarrow>
            Inr (new_session c))"

text \<open>The constructor's default parameters.\<close>

definition default_config :: config where
  "default_config =
     \<lparr>protocol = ''TCP'', host = ''127.0.0.1'', port = Inr 502, slave_id = 1,
      baudrate = 9600, parity = ''N'', stopbits = 1, bytesize = 8, timeout = 10,
      auto_reconnect = False, reconnect_delay = 5, max_reconnect_attempts = 3,
      mock_mode = False\<rparr>"

section \<open>Callbacks and the last error\<close>

text \<open>
  \<^verbatim>\<open>_trigger_callbacks\<close>: every callback registered for the event is called, in order;
  an exception of a callback is logged and dropped. A callback is taken to be an observer:
  it does not call back into the driver and leaves the values it is handed as they are.
\<close>

definition trigger_callbacks :: "string \<Rightarrow> payload \<Rightarrow> session \<Rightarrow> session" where
  "trigger_callbacks ev data s =
     (case callbacks s ev of
        None \<Rightarrow> s
      | Some cbs \<Rightarrow> emit (Dispatch ev data cbs) s)"

definition register_callback :: "string \<Rightarrow> nat \<Rightarrow> session \<Rightarrow> session" where
  "register_callback ev callback s =
     (case callbacks s ev of
        None \<Rightarrow> s
      | Some cbs \<Rightarrow> s\<lparr>callbacks := (callbacks s)(ev \<mapsto> cbs @ [callback])\<rparr>)"

definition unregister_callback :: "string \<Rightarrow> nat \<Rightarrow> session \<Rightarrow> session" where
  "unregister_callback ev callback s =
     (case callbacks s ev of
        None \<Rightarrow> s
      | Some cbs \<Rightarrow>
          if callback \<in> set cbs then s\<lparr>callbacks := (callbacks s)(ev \<mapsto> remove1 callback cbs)\<rparr>
          else s)"

definition get_last_error :: "session \<Rightarrow> EquipmentError" where
  "get_last_error s = last_error s"

definition clear_error :: "session \<Rightarrow> session" where
  "clear_error s = s\<lparr>last_error := EquipmentError_default\<rparr>"

section \<open>Connection management\<close>

text \<open>
  The \<^verbatim>\<open>try\<close> block of \<^verbatim>\<open>connect\<close>: the client is built for the protocol and
  stored in \<^verbatim>\<open>self._client\<close>, then opened.
\<close>

definition connect_try :: "world \<Rightarrow> session \<Rightarrow> (py_exception + bool) \<times> session" where
  "connect_try w s =
     (let c = (if protocol_enum s = TCP then ModbusTcpClient else ModbusSerialClient);
          s1 = external_call (ClientCreate c) s
      in case construct_result w (tick s) of
           Some e \<Rightarrow> (Inl e, s1)
         | None \<Rightarrow>
             (let s2 = s1\<lparr>client := Some c\<rparr>;
                  s3 = external_call ClientConnect s2
              in case connect_result w (tick s2) of
                   ConnectRaises e \<Rightarrow> (Inl e, s3)
                 | ConnectReturns ok \<Rightarrow>
                     if ok then
                       (Inr True,
                        trigger_callbacks ''on_connect'' NoData
                          (s3\<lparr>connected := True, last_error := EquipmentError_default\<rparr>))
                     else
                       (Inl (SA32ConnectionError
                              ''Impossible de se connecter a l'equipement SA32''), s3)))"

definition connect :: "world \<Rightarrow> session \<Rightarrow> (py_exception + bool) \<times> session" where
  "connect w =
     with_lock (\<lambda>s.
       if connected s then (Inr True, s)
       else if mock_mode s then
         (Inr True, trigger_callbacks ''on_connect'' NoData (s\<lparr>connected := True\<rparr>))
       else
         case connect_try w s of
           (Inr r, s1) \<Rightarrow> (Inr r, s1)
         | (Inl e, s1) \<Rightarrow>
             (let error_msg = ''Erreur lors de la connexion: '' @ str_exc e;
                  s2 = s1\<lparr>last_error := \<lparr>status = True, code = - 1, source = error_msg\<rparr>\<rparr>;
                  s3 = trigger_callbacks ''on_error'' (ErrorData (last_error s2)) s2
              in (Inl (SA32ConnectionError error_msg), s3)))"

text \<open>\<^verbatim>\<open>disconnect\<close> returns nothing and raises nothing.\<close>

definition disconnect :: "world \<Rightarrow> session \<Rightarrow> unit \<times> session" where
  "disconnect w =
     with_lock (\<lambda>s.
       if \<not> connected s then ((), s)
       else if mock_mode s then
         ((), trigger_callbacks ''on_disconnect'' NoData (s\<lparr>connected := False\<rparr>))
       else
         case client s of
           None \<Rightarrow>
             ((), trigger_callbacks ''on_disconnect'' NoData
                    (s\<lparr>connected := False, client := None\<rparr>))
         | Some c \<Rightarrow>
             (let s1 = external_call ClientClose s
              in case close_result w (tick s) of
                   None \<Rightarrow>
                     ((), trigger_callbacks ''on_disconnect'' NoData
                            (s1\<lparr>connected := False, client := None\<rparr>))
                 | Some e \<Rightarrow> ((), s1\<lparr>connected := False, client := None\<rparr>)))"

definition is_connected :: "session \<Rightarrow> bool" where
  "is_connected s = connected s"

text \<open>\<^verbatim>\<open>time.sleep\<close> refuses a negative length.\<close>

definition sleep :: "real \<Rightarrow> session \<Rightarrow> (py_exception + unit) \<times> session" where
  "sleep d s =
     (if d < 0 then (Inl (ValueError ''sleep length must be non-negative''), s)
      else (Inr (), emit (Sleep d) s))"

text \<open>
  The loop of \<^verbatim>\<open>_attempt_reconnect\<close> over the attempt numbers that are left; only a
  \<open>SA32ConnectionError\<close> of \<^verbatim>\<open>connect\<close> is caught.
\<close>

fun reconnect_loop :: "world \<Rightarrow> int list \<Rightarrow> session \<Rightarrow> (py_exception + bool) \<times> session" where
  "reconnect_loop w [] s = (Inr False, s)"
| "reconnect_loop w (attempt # rest) s =
     (case connect w s of
        (Inr ok, s1) \<Rightarrow> if ok then (Inr True, s1) else reconnect_loop w rest s1
      | (Inl (SA32ConnectionError m), s1) \<Rightarrow>
          if attempt < max_reconnect_attempts s1 then
            (case sleep (reconnect_delay s1) s1 of
               (Inl e, s2) \<Rightarrow> (Inl e, s2)
             | (Inr u, s2) \<Rightarrow> reconnect_loop w rest s2)
          else reconnect_loop w rest s1
      | (Inl e, s1) \<Rightarrow> (Inl e, s1))"

text \<open>\<^verbatim>\<open>range(1, self.max_reconnect_attempts + 1)\<close> is \<open>[1..max_reconnect_attempts s]\<close>.\<close>

definition attempt_reconnect :: "world \<Rightarrow> session \<Rightarrow> (py_exception + bool) \<times> session" where
  "attempt_reconnect w s = reconnect_loop w [1..max_reconnect_attempts s] s"

text \<open>\<^verbatim>\<open>_ensure_connected\<close>: what \<^verbatim>\<open>_attempt_reconnect\<close> returns is not looked at.\<close>

definition ensure_connected :: "world \<Rightarrow> session \<Rightarrow> (py_exception + unit) \<times> session" where
  "ensure_connected w s =
     (if \<not> connected s then
        if auto_reconnect s then
          (case attempt_reconnect w s of
             (Inl e, s1) \<Rightarrow> (Inl e, s1)
           | (Inr r, s1) \<Rightarrow> (Inr (), s1))
        else
          (let error_msg = ''Aucune connexion active. Appelez connect() d'abord.'';
               s1 = s\<lparr>last_error := \<lparr>status = True, code = - 1, source = error_msg\<rparr>\<rparr>;
               s2 = trigger_callbacks ''on_error'' (ErrorData (last_error s1)) s1
           in (Inl (SA32ConnectionError error_msg), s2))
      else (Inr (), s))"

section \<open>The simulated register map\<close>

text \<open>\<^verbatim>\<open>range(count)\<close>: empty when \<open>count \<le> 0\<close>.\<close>

definition range_py :: "int \<Rightarrow> int list" where
  "range_py n = map int [0..<nat n]"

text \<open>One turn of the loop of \<^verbatim>\<open>_mock_read_registers\<close>.\<close>

definition mock_read_step ::
  "world \<Rightarrow> int \<Rightarrow> int list \<times> session \<Rightarrow> int \<Rightarrow> int list \<times> session" where
  "mock_read_step w address acc i =
     (case acc of (values, s) \<Rightarrow>
        (let addr = address + i
         in case mock_registers s addr of
              None \<Rightarrow>
                (let v = uint (randint w (tick s))
                 in (values @ [v],
                     s\<lparr>mock_registers := (mock_registers s)(addr \<mapsto> v), tick := Suc (tick s)\<rparr>))
            | Some v \<Rightarrow> (values @ [v], s)))"

definition mock_read_registers :: "world \<Rightarrow> int \<Rightarrow> int \<Rightarrow> session \<Rightarrow> int list \<times> session" where
  "mock_read_registers w address count s =
     foldl (mock_read_step w address) ([], s) (range_py count)"

definition mock_write_register :: "int \<Rightarrow> int \<Rightarrow> session \<Rightarrow> bool \<times> session" where
  "mock_write_register address value s =
     (True, s\<lparr>mock_registers := (mock_registers s)(address \<mapsto> value)\<rparr>)"

definition set_mock_register :: "int \<Rightarrow> int \<Rightarrow> session \<Rightarrow> session" where
  "set_mock_register address value s =
     (if mock_mode s then s\<lparr>mock_registers := (mock_registers s)(address \<mapsto> value)\<rparr> else s)"

section \<open>Register operations\<close>

text \<open>
  A call of a method of \<^verbatim>\<open>self._client\<close>; on \<^verbatim>\<open>None\<close> the attribute lookup raises
  \<open>AttributeError\<close>.
\<close>

definition client_request ::
  "world \<Rightarrow> request \<Rightarrow> session \<Rightarrow> (py_exception + response) \<times> session" where
  "client_request w req s =
     (case client s of
        None \<Rightarrow> (Inl (OtherException ''NoneType object has no attribute''), s)
      | Some c \<Rightarrow>
          (case request_result w (tick s) of
             Raises e \<Rightarrow> (Inl e, external_call (ClientRequest req) s)
           | Returns r \<Rightarrow> (Inr r, external_call (ClientRequest req) s)))"

text \<open>
  The two \<^verbatim>\<open>except\<close> clauses that close the \<^verbatim>\<open>try\<close> block of each of the four
  register operations: \<^verbatim>\<open>except ModbusException\<close> (code -2), then
  \<^verbatim>\<open>except Exception\<close> (code -3), which also catches a
  \<open>SA32CommunicationError\<close> raised inside the block.
\<close>

definition except_clauses ::
  "string \<Rightarrow> (py_exception + 'a) \<times> session \<Rightarrow> (py_exception + 'a) \<times> session" where
  "except_clauses unexpected r =
     (case r of
        (Inr v, s) \<Rightarrow> (Inr v, s)
      | (Inl e, s) \<Rightarrow>
          if is_ModbusException e then
            (let error_msg = ''Exception Modbus: '' @ str_exc e;
                 s1 = s\<lparr>last_error := \<lparr>status = True, code = - 2, source = error_msg\<rparr>\<rparr>;
                 s2 = trigger_callbacks ''on_error'' (ErrorData (last_error s1)) s1
             in (Inl (SA32CommunicationError error_msg), s2))
          else
            (let error_msg = unexpected @ str_exc e;
                 s1 = s\<lparr>last_error := \<lparr>status = True, code = - 3, source = error_msg\<rparr>\<rparr>;
                 s2 = trigger_callbacks ''on_error'' (ErrorData (last_error s1)) s1
             in (Inl (SA32CommunicationError error_msg), s2)))"

text \<open>The error branch of a response: the last error is set, then the exception raised.\<close>

definition response_error ::
  "string \<Rightarrow> int option \<Rightarrow> string \<Rightarrow> session \<Rightarrow> (py_exception + 'a) \<times> session" where
  "response_error prefix exception_code text s =
     (let error_msg = prefix @ text
      in (Inl (SA32CommunicationError error_msg),
          s\<lparr>last_error :=
               \<lparr>status = True,
                code = (case exception_code of Some c \<Rightarrow> c | None \<Rightarrow> - 1),
                source = error_msg\<rparr>\<rparr>))"

text \<open>The \<^verbatim>\<open>try\<close> block of the two reads, for the request that the read sends.\<close>

definition read_try ::
  "world \<Rightarrow> request \<Rightarrow> int \<Rightarrow> session \<Rightarrow> (py_exception + int list) \<times> session" where
  "read_try w req address s =
     (case client_request w req s of
        (Inl e, s1) \<Rightarrow> (Inl e, s1)
      | (Inr (ErrorResponse exception_code text), s1) \<Rightarrow>
          response_error ''Erreur Modbus lors de la lecture: '' exception_code text s1
      | (Inr (OkResponse values), s1) \<Rightarrow>
          (Inr values,
           trigger_callbacks ''on_data_received'' (RegisterData address values)
             (s1\<lparr>last_error := EquipmentError_default\<rparr>)))"

text \<open>What follows \<^verbatim>\<open>self._ensure_connected()\<close> in the two reads.\<close>

definition read_locked ::
  "world \<Rightarrow> request \<Rightarrow> int \<Rightarrow> int \<Rightarrow> session \<Rightarrow> (py_exception + int list) \<times> session" where
  "read_locked w req address count =
     with_lock (\<lambda>s.
       if mock_mode s then
         (case mock_read_registers w address count s of
            (values, s1) \<Rightarrow>
              (Inr values,
               trigger_callbacks ''on_data_received'' (RegisterData address values) s1))
       else
         except_clauses ''Erreur inattendue lors de la lecture: '' (read_try w req address s))"

definition read_holding_registers ::
  "world \<Rightarrow> int \<Rightarrow> int \<Rightarrow> session \<Rightarrow> (py_exception + int list) \<times> session" where
  "read_holding_registers w address count s =
     (case ensure_connected w s of
        (Inl e, s1) \<Rightarrow> (Inl e, s1)
      | (Inr u, s1) \<Rightarrow>
          read_locked w (ReadHolding address count (slave_id s1)) address count s1)"

definition read_input_registers ::
  "world \<Rightarrow> int \<Rightarrow> int \<Rightarrow> session \<Rightarrow> (py_exception + int list) \<times> session" where
  "read_input_registers w address count s =
     (case ensure_connected w s of
        (Inl e, s1) \<Rightarrow> (Inl e, s1)
      | (Inr u, s1) \<Rightarrow>
          read_locked w (ReadInput address count (slave_id s1)) address count s1)"

text \<open>The \<^verbatim>\<open>try\<close> block of the two writes.\<close>

definition write_try ::
  "world \<Rightarrow> request \<Rightarrow> session \<Rightarrow> (py_exception + bool) \<times> session" where
  "write_try w req s =
     (case client_request w req s of
        (Inl e, s1) \<Rightarrow> (Inl e, s1)
      | (Inr (ErrorResponse exception_code text), s1) \<Rightarrow>
          response_error ''Erreur Modbus lors de l'ecriture: '' exception_code text s1
      | (Inr (OkResponse values), s1) \<Rightarrow>
          (Inr True, s1\<lparr>last_error := EquipmentError_default\<rparr>))"

definition write_register ::
  "world \<Rightarrow> int \<Rightarrow> int \<Rightarrow> session \<Rightarrow> (py_exception + bool) \<times> session" where
  "write_register w address value s =
     (case ensure_connected w s of
        (Inl e, s1) \<Rightarrow> (Inl e, s1)
      | (Inr u, s1) \<Rightarrow>
          with_lock (\<lambda>s2.
            if mock_mode s2 then
              (case mock_write_register address value s2 of (r, s3) \<Rightarrow> (Inr r, s3))
            else
              except_clauses ''Erreur inattendue lors de l'ecriture: ''
                (write_try w (WriteSingle address value (slave_id s2)) s2)) s1)"

text \<open>\<^verbatim>\<open>for i, value in enumerate(values): self._mock_write_register(address + i, value)\<close>\<close>

definition mock_write_all :: "int \<Rightarrow> int list \<Rightarrow> session \<Rightarrow> session" where
  "mock_write_all address values s =
     foldl (\<lambda>s' (i, value). snd (mock_write_register (address + int i) value s')) s
       (enumerate 0 values)"

definition write_registers ::
  "world \<Rightarrow> int \<Rightarrow> int list \<Rightarrow> session \<Rightarrow> (py_exception + bool) \<times> session" where
  "write_registers w address values s =
     (case ensure_connected w s of
        (Inl e, s1) \<Rightarrow> (Inl e, s1)
      | (Inr u, s1) \<Rightarrow>
          with_lock (\<lambda>s2.
            if mock_mode s2 then (Inr True, mock_write_all address values s2)
            else
              except_clauses ''Erreur inattendue lors de l'ecriture: ''
                (write_try w (WriteMultiple address values (slave_id s2)) s2)) s1)"

section \<open>The 32-bit float codec\<close>

text \<open>
  The module's own \<^verbatim>\<open>BinaryPayloadDecoder\<close> and \<^verbatim>\<open>BinaryPayloadBuilder\<close> (used
  when the library has no payload module). A float that is a 32-bit value is its IEEE 754
  bit pattern, a \<open>32 word\<close>; \<^verbatim>\<open>struct.pack('>f', v)\<close> writes the four bytes of the
  pattern from the most significant one, \<^verbatim>\<open>'<f'\<close> from the least significant one, and
  \<^verbatim>\<open>struct.unpack\<close> reads them back. A byte order is the string the source compares
  with \<^verbatim>\<open>'>'\<close>.
\<close>

type_synonym byte = "8 word"

definition Endian_BIG :: string where
  "Endian_BIG = ''>''"

definition Endian_LITTLE :: string where
  "Endian_LITTLE = ''<''"

definition DEFAULT_BYTE_ORDER :: string where
  "DEFAULT_BYTE_ORDER = Endian_BIG"

definition DEFAULT_WORD_ORDER :: string where
  "DEFAULT_WORD_ORDER = Endian_BIG"

definition float_bytes_be :: "32 word \<Rightarrow> byte list" where
  "float_bytes_be v =
     [ucast (drop_bit 24 v), ucast (drop_bit 16 v), ucast (drop_bit 8 v), ucast v]"

definition float_of_bytes_be :: "byte \<Rightarrow> byte \<Rightarrow> byte \<Rightarrow> byte \<Rightarrow> 32 word" where
  "float_of_bytes_be b3 b2 b1 b0 =
     push_bit 24 (ucast b3) OR push_bit 16 (ucast b2) OR push_bit 8 (ucast b1) OR ucast b0"

text \<open>\<^verbatim>\<open>struct.pack\<close> and \<^verbatim>\<open>struct.unpack\<close> for the two formats the module uses.\<close>

definition struct_pack :: "string \<Rightarrow> 32 word \<Rightarrow> byte list" where
  "struct_pack fmt v = (if fmt = ''>f'' then float_bytes_be v else rev (float_bytes_be v))"

definition struct_unpack :: "string \<Rightarrow> byte list \<Rightarrow> py_exception + 32 word" where
  "struct_unpack fmt bs =
     (case bs of
        [a, b, c, d] \<Rightarrow>
          Inr (if fmt = ''>f'' then float_of_bytes_be a b c d else float_of_bytes_be d c b a)
      | _ \<Rightarrow> Inl (StructError ''unpack requires a buffer of 4 bytes''))"

text \<open>A finite float: the exponent field is not all ones (neither infinity nor NaN).\<close>

definition float32_finite :: "32 word \<Rightarrow> bool" where
  "float32_finite v = (drop_bit 23 v AND 255 \<noteq> 255)"

record BinaryPayloadDecoder =
  decoder_payload :: "byte list"
  decoder_byteorder :: string

record BinaryPayloadBuilder =
  builder_byteorder :: string
  builder_payload :: "byte list"

text \<open>\<^verbatim>\<open>reg.to_bytes(2, byteorder='big')\<close>\<close>

definition int_to_bytes2 :: "int \<Rightarrow> py_exception + byte list" where
  "int_to_bytes2 reg =
     (if 0 \<le> reg \<and> reg \<le> 65535 then Inr [word_of_int (reg div 256), word_of_int (reg mod 256)]
      else Inl (OverflowError ''int too big to convert''))"

text \<open>\<^verbatim>\<open>b''.join(reg.to_bytes(2, byteorder='big') for reg in registers)\<close>\<close>

fun join_registers :: "int list \<Rightarrow> py_exception + byte list" where
  "join_registers [] = Inr []"
| "join_registers (reg # registers) =
     (case int_to_bytes2 reg of
        Inl e \<Rightarrow> Inl e
      | Inr bs \<Rightarrow>
          (case join_registers registers of
             Inl e \<Rightarrow> Inl e
           | Inr rest \<Rightarrow> Inr (bs @ rest)))"

definition fromRegisters ::
  "int list \<Rightarrow> string \<Rightarrow> string \<Rightarrow> py_exception + BinaryPayloadDecoder" where
  "fromRegisters registers byteorder wordorder =
     (case join_registers registers of
        Inl e \<Rightarrow> Inl e
      | Inr bs \<Rightarrow> Inr \<lparr>decoder_payload = bs, decoder_byteorder = byteorder\<rparr>)"

definition decode_32bit_float :: "BinaryPayloadDecoder \<Rightarrow> py_exception + 32 word" where
  "decode_32bit_float d =
     (if decoder_byteorder d = ''>'' then struct_unpack ''>f'' (take 4 (decoder_payload d))
      else struct_unpack ''<f'' (take 4 (decoder_payload d)))"

definition BinaryPayloadBuilder_init :: "string \<Rightarrow> string \<Rightarrow> BinaryPayloadBuilder" where
  "BinaryPayloadBuilder_init byteorder wordorder =
     \<lparr>builder_byteorder = byteorder, builder_payload = []\<rparr>"

definition add_32bit_float :: "32 word \<Rightarrow> BinaryPayloadBuilder \<Rightarrow> BinaryPayloadBuilder" where
  "add_32bit_float v b =
     (if builder_byteorder b = ''>''
      then b\<lparr>builder_payload := builder_payload b @ struct_pack ''>f'' v\<rparr>
      else b\<lparr>builder_payload := builder_payload b @ struct_pack ''<f'' v\<rparr>)"

text \<open>
  \<^verbatim>\<open>int.from_bytes(self.payload[i:i+2], byteorder='big')\<close> for \<open>i\<close> in steps of two; a
  last slice may hold one byte.
\<close>

fun bytes_to_registers :: "byte list \<Rightarrow> int list" where
  "bytes_to_registers [] = []"
| "bytes_to_registers [b] = [uint b]"
| "bytes_to_registers (hi # lo # rest) = (uint hi * 256 + uint lo) # bytes_to_registers rest"

definition to_registers :: "BinaryPayloadBuilder \<Rightarrow> int list" where
  "to_registers b = bytes_to_registers (builder_payload b)"

text \<open>The codec steps of \<^verbatim>\<open>write_float\<close> and of \<^verbatim>\<open>read_float\<close>.\<close>

definition encode_float :: "string \<Rightarrow> string \<Rightarrow> 32 word \<Rightarrow> int list" where
  "encode_float byte_order word_order v =
     to_registers (add_32bit_float v (BinaryPayloadBuilder_init byte_order word_order))"

definition decode_float :: "string \<Rightarrow> string \<Rightarrow> int list \<Rightarrow> py_exception + 32 word" where
  "decode_float byte_order word_order registers =
     (case fromRegisters registers byte_order word_order of
        Inl e \<Rightarrow> Inl e
      | Inr d \<Rightarrow> decode_32bit_float d)"

definition order_or_default :: "string option \<Rightarrow> string \<Rightarrow> string" where
  "order_or_default order dflt = (case order of None \<Rightarrow> dflt | Some v \<Rightarrow> v)"

definition write_float ::
  "world \<Rightarrow> int \<Rightarrow> 32 word \<Rightarrow> string option \<Rightarrow> string option \<Rightarrow> session
     \<Rightarrow> (py_exception + bool) \<times> session" where
  "write_float w address v byte_order word_order s =
     write_registers w address
       (encode_float (order_or_default byte_order DEFAULT_BYTE_ORDER)
          (order_or_default word_order DEFAULT_WORD_ORDER) v) s"

text \<open>\<^verbatim>\<open>read_float\<close> on the holding registers; \<open>None\<close> when no register came back.\<close>

definition read_float ::
  "world \<Rightarrow> int \<Rightarrow> string option \<Rightarrow> string option \<Rightarrow> session
     \<Rightarrow> (py_exception + 32 word option) \<times> session" where
  "read_float w address byte_order word_order s =
     (case read_holding_registers w address 2 s of
        (Inl e, s1) \<Rightarrow> (Inl e, s1)
      | (Inr registers, s1) \<Rightarrow>
          if registers = [] then (Inr None, s1)
          else
            (case decode_float (order_or_default byte_order DEFAULT_BYTE_ORDER)
                    (order_or_default word_order DEFAULT_WORD_ORDER) registers of
               Inl e \<Rightarrow> (Inl e, s1)
             | Inr v \<Rightarrow> (Inr (Some v), s1)))"

section \<open>Scenarios\<close>

text \<open>
  A world that answers every call of a kind the same way: what \<^verbatim>\<open>client.connect()\<close>
  does, what \<^verbatim>\<open>client.close()\<close> raises, what a request gives. The constructors
  of the clients succeed and the random generator returns 0.
\<close>

definition constant_world ::
  "connect_outcome \<Rightarrow> py_exception option \<Rightarrow> request_outcome \<Rightarrow> world" where
  "constant_world on_open on_close on_request =
     \<lparr>construct_result = (\<lambda>n. None), connect_result = (\<lambda>n. on_open),
      close_result = (\<lambda>n. on_close), request_result = (\<lambda>n. on_request),
      randint = (\<lambda>n. 0)\<rparr>"

text \<open>A driver in mock mode, fresh and after \<^verbatim>\<open>connect()\<close>.\<close>

definition quiet_world :: world where
  "quiet_world = constant_world (ConnectReturns True) None (Returns (OkResponse []))"

definition mock_session :: session where
  "mock_session = new_session (default_config\<lparr>mock_mode := True\<rparr>)"

definition connected_mock_session :: session where
  "connected_mock_session = snd (connect quiet_world mock_session)"

text \<open>
  The reconnection scenario: automatic reconnection with three attempts and no delay, and a
  transport whose \<^verbatim>\<open>connect()\<close> always returns \<^verbatim>\<open>False\<close> and whose requests
  raise the library's connection exception.
\<close>

definition refusing_world :: world where
  "refusing_world =
     constant_world (ConnectReturns False) None
       (Raises (ModbusException ''Connection to device failed''))"

definition reconnecting_session :: session where
  "reconnecting_session =
     new_session (default_config\<lparr>auto_reconnect := True, reconnect_delay := 0,
       max_reconnect_attempts := 3\<rparr>)"

text \<open>
  A driver over TCP with the default parameters, connected to a device that answers every
  request with an exception response of code 2.
\<close>

definition illegal_address_world :: world where
  "illegal_address_world =
     constant_world (ConnectReturns True) None
       (Returns (ErrorResponse (Some 2) ''Exception Response(131, 3, IllegalAddress)''))"

definition tcp_session :: session where
  "tcp_session = new_session default_config"

definition connected_tcp_session :: session where
  "connected_tcp_session = snd (connect illegal_address_world tcp_session)"

text \<open>
  A connected driver over TCP with one callback registered for \<^verbatim>\<open>on_disconnect\<close>,
  and a transport whose \<^verbatim>\<open>close()\<close> raises.
\<close>

definition close_failing_world :: world where
  "close_failing_world =
     constant_world (ConnectReturns True) (Some (OtherException ''close failed''))
       (Returns (OkResponse []))"

definition watched_tcp_session :: session where
  "watched_tcp_session =
     snd (connect close_failing_world (register_callback ''on_disconnect'' 1 tcp_session))"

text \<open>
  A transport that opens, lets the first request time out and answers the later ones with
  one register; a driver over TCP after \<^verbatim>\<open>connect()\<close> and one read that failed.
\<close>

definition flaky_world :: world where
  "flaky_world =
     \<lparr>construct_result = (\<lambda>n. None), connect_result = (\<lambda>n. ConnectReturns True),
      close_result = (\<lambda>n. None),
      request_result =
        (\<lambda>n. if n < 3 then Raises (ModbusException ''No response received'')
             else Returns (OkResponse [5])),
      randint = (\<lambda>n. 0)\<rparr>"

definition failed_once_session :: session where
  "failed_once_session =
     snd (read_holding_registers flaky_world 1000 1 (snd (connect flaky_world tcp_session)))"

text \<open>
  A driver in mock mode whose first read, before any \<^verbatim>\<open>connect()\<close>, failed, and
  that was connected afterwards.
\<close>

definition errored_mock_session :: session where
  "errored_mock_session =
     snd (connect quiet_world (snd (read_holding_registers quiet_world 1000 1 mock_session)))"

text \<open>A connected driver holds a client.\<close>

definition connected_has_client :: "session \<Rightarrow> bool" where
  "connected_has_client s = (connected s \<longrightarrow> client s \<noteq> None)"

section \<open>The lock in the trace\<close>

text \<open>
  The lock is reentrant: the depth after a trace that starts at depth \<open>d\<close>, the number
  of times the lock is taken from free, and whether every call on the Modbus client in the
  trace is made with the lock held.
\<close>

fun is_client_call :: "event \<Rightarrow> bool" where
  "is_client_call (ClientCreate c) = True"
| "is_client_call ClientConnect = True"
| "is_client_call ClientClose = True"
| "is_client_call (ClientRequest r) = True"
| "is_client_call e = False"

fun lock_depth :: "nat \<Rightarrow> event list \<Rightarrow> nat" where
  "lock_depth d [] = d"
| "lock_depth d (LockAcquire # t) = lock_depth (Suc d) t"
| "lock_depth d (LockRelease # t) = lock_depth (d - 1) t"
| "lock_depth d (e # t) = lock_depth d t"

fun outer_acquisitions :: "nat \<Rightarrow> event list \<Rightarrow> nat" where
  "outer_acquisitions d [] = 0"
| "outer_acquisitions d (LockAcquire # t) =
     (if d = 0 then 1 else 0) + outer_acquisitions (Suc d) t"
| "outer_acquisitions d (LockRelease # t) = outer_acquisitions (d - 1) t"
| "outer_acquisitions d (e # t) = outer_acquisitions d t"

fun client_calls_locked :: "nat \<Rightarrow> event list \<Rightarrow> bool" where
  "client_calls_locked d [] = True"
| "client_calls_locked d (e # t) =
     (if is_client_call e then 0 < d \<and> client_calls_locked d t
      else client_calls_locked (lock_depth d [e]) t)"

text \<open>
  The effects that a method added to the trace, and what holds of them when every call on
  the client was made under the lock and the lock is free again at the end.
\<close>

definition new_events :: "session \<Rightarrow> session \<Rightarrow> event list" where
  "new_events s s' = drop (length (trace s)) (trace s')"

definition lock_disciplined :: "session \<Rightarrow> session \<Rightarrow> bool" where
  "lock_disciplined s s' =
     (take (length (trace s)) (trace s') = trace s \<and>
      client_calls_locked 0 (new_events s s') \<and>
      lock_depth 0 (new_events s s') = 0)"

text \<open>
  The phases of the lock while \<^verbatim>\<open>_ensure_connected\<close> runs: free, held, held with the
  client built, held with the client opened. The lock is taken only when free, the client is
  built and opened at most once under one acquisition, a sleep happens only with the lock
  free, a dispatch in any phase; no request and no close occur.
\<close>

datatype lock_phase = Free | Held | Built | Opened

fun reconnect_step :: "lock_phase \<Rightarrow> event \<Rightarrow> lock_phase option" where
  "reconnect_step ph LockAcquire = (if ph = Free then Some Held else None)"
| "reconnect_step ph LockRelease = (if ph = Free then None else Some Free)"
| "reconnect_step ph (ClientCreate c) = (if ph = Held then Some Built else None)"
| "reconnect_step ph ClientConnect = (if ph = Built then Some Opened else None)"
| "reconnect_step ph (Sleep x) = (if ph = Free then Some Free else None)"
| "reconnect_step ph (Dispatch ev p cbs) = Some ph"
| "reconnect_step ph ClientClose = None"
| "reconnect_step ph (ClientRequest r) = None"

fun reconnect_run :: "lock_phase \<Rightarrow> event list \<Rightarrow> lock_phase option" where
  "reconnect_run ph [] = Some ph"
| "reconnect_run ph (e # t) =
     (case reconnect_step ph e of None \<Rightarrow> None | Some ph' \<Rightarrow> reconnect_run ph' t)"

definition reconnect_sections :: "event list \<Rightarrow> bool" where
  "reconnect_sections t = (reconnect_run Free t = Some Free)"

text \<open>The depth of the lock in a phase.\<close>

fun phase_depth :: "lock_phase \<Rightarrow> nat" where
  "phase_depth Free = 0"
| "phase_depth ph = 1"

text \<open>
  The data transfer of an operation: the lock is taken, requests and dispatches follow, the
  lock is released, and nothing comes after.
\<close>

fun transfer_body :: "event list \<Rightarrow> bool" where
  "transfer_body [] = False"
| "transfer_body (LockRelease # t) = (t = [])"
| "transfer_body (ClientRequest r # t) = transfer_body t"
| "transfer_body (Dispatch ev p cbs # t) = transfer_body t"
| "transfer_body (e # t) = False"

fun transfer_section :: "event list \<Rightarrow> bool" where
  "transfer_section (LockAcquire # t) = transfer_body t"
| "transfer_section t = False"

text \<open>
  How an operation uses the lock, from the driver \<open>s\<close> it starts on, the result and
  driver of \<^verbatim>\<open>_ensure_connected\<close>, and the driver \<open>s2\<close> it ends on: both steps
  only add to the trace; what \<^verbatim>\<open>_ensure_connected\<close> adds runs through the phases
  from free to free, and takes the lock exactly when the driver is disconnected with
  automatic reconnection and at least one attempt allowed; what follows is nothing when it
  raised, and one data transfer otherwise; and the lock is taken from free once for every
  acquisition of \<^verbatim>\<open>_ensure_connected\<close> and once more for the transfer when there
  is one.
\<close>

definition operation_lock_pattern ::
  "session \<Rightarrow> (py_exception + unit) \<times> session \<Rightarrow> session \<Rightarrow> bool" where
  "operation_lock_pattern s ensured s2 =
     (case ensured of (r, s1) \<Rightarrow>
        take (length (trace s)) (trace s1) = trace s \<and>
        take (length (trace s1)) (trace s2) = trace s1 \<and>
        reconnect_sections (new_events s s1) \<and>
        (LockAcquire \<in> set (new_events s s1)) =
          (\<not> connected s \<and> auto_reconnect s \<and> 1 \<le> max_reconnect_attempts s) \<and>
        (case r of
           Inl e \<Rightarrow> new_events s1 s2 = []
         | Inr u \<Rightarrow> transfer_section (new_events s1 s2)) \<and>
        outer_acquisitions 0 (new_events s s2) =
          count_list (new_events s s1) LockAcquire + (case r of Inl e \<Rightarrow> 0 | Inr u \<Rightarrow> 1))"

text \<open>
  The second driver has the trace of the first one and more, and what was added runs
  through the phases from free to free; the events that a data transfer may hold.
\<close>

abbreviation sections_run :: "session \<Rightarrow> session \<Rightarrow> bool" where
  "sections_run s s' \<equiv> \<exists>t. trace s' = trace s @ t \<and> reconnect_run Free t = Some Free"

abbreviation transfer_events :: "event list \<Rightarrow> bool" where
  "transfer_events t \<equiv>
     \<forall>e \<in> set t. (\<exists>r. e = ClientRequest r) \<or> (\<exists>ev p cbs. e = Dispatch ev p cbs)"

text \<open>
  From depth \<open>d\<close>, the second driver has the trace of the first one and more, with
  every call on the client under the lock and the depth back at \<open>d\<close>.
\<close>

abbreviation locked_run :: "nat \<Rightarrow> session \<Rightarrow> session \<Rightarrow> bool" where
  "locked_run d s s' \<equiv>
     \<exists>t. trace s' = trace s @ t \<and> client_calls_locked d t \<and> lock_depth d t = d"


section \<open>Properties\<close>

subsection \<open>What the helpers leave alone\<close>

lemma emit_fields [simp]:
  "connected (emit e s) = connected s"
  "client (emit e s) = client s"
  "mock_mode (emit e s) = mock_mode s"
  "auto_reconnect (emit e s) = auto_reconnect s"
  "max_reconnect_attempts (emit e s) = max_reconnect_attempts s"
  "reconnect_delay (emit e s) = reconnect_delay s"
  "slave_id (emit e s) = slave_id s"
  "protocol_enum (emit e s) = protocol_enum s"
  "callbacks (emit e s) = callbacks s"
  "mock_registers (emit e s) = mock_registers s"
  "last_error (emit e s) = last_error s"
  "tick (emit e s) = tick s"
  "trace (emit e s) = trace s @ [e]"
  by (simp_all add: emit_def)

lemma external_call_fields [simp]:
  "connected (external_call e s) = connected s"
  "client (external_call e s) = client s"
  "mock_mode (external_call e s) = mock_mode s"
  "auto_reconnect (external_call e s) = auto_reconnect s"
  "max_reconnect_attempts (external_call e s) = max_reconnect_attempts s"
  "reconnect_delay (external_call e s) = reconnect_delay s"
  "slave_id (external_call e s) = slave_id s"
  "protocol_enum (external_call e s) = protocol_enum s"
  "callbacks (external_call e s) = callbacks s"
  "mock_registers (external_call e s) = mock_registers s"
  "last_error (external_call e s) = last_error s"
  "tick (external_call e s) = Suc (tick s)"
  "trace (external_call e s) = trace s @ [e]"
  by (simp_all add: external_call_def)

lemma trigger_callbacks_fields [simp]:
  "connected (trigger_callbacks ev d s) = connected s"
  "client (trigger_callbacks ev d s) = client s"
  "mock_mode (trigger_callbacks ev d s) = mock_mode s"
  "auto_reconnect (trigger_callbacks ev d s) = auto_reconnect s"
  "max_reconnect_attempts (trigger_callbacks ev d s) = max_reconnect_attempts s"
  "reconnect_delay (trigger_callbacks ev d s) = reconnect_delay s"
  "slave_id (trigger_callbacks ev d s) = slave_id s"
  "protocol_enum (trigger_callbacks ev d s) = protocol_enum s"
  "callbacks (trigger_callbacks ev d s) = callbacks s"
  "mock_registers (trigger_callbacks ev d s) = mock_registers s"
  "last_error (trigger_callbacks ev d s) = last_error s"
  "tick (trigger_callbacks ev d s) = tick s"
  by (simp_all add: trigger_callbacks_def split: option.splits)

subsection \<open>The scenarios\<close>

lemmas scenario_defs =
  constant_world_def new_session_def default_config_def initial_callbacks_def
  config.defs session.defs upper_def char_upper_def ModbusProtocol_of_def

lemmas driver_defs =
  connect_def connect_try_def disconnect_def with_lock_def trigger_callbacks_def emit_def
  external_call_def ensure_connected_def attempt_reconnect_def sleep_def
  read_holding_registers_def read_locked_def read_try_def client_request_def
  except_clauses_def response_error_def register_callback_def

lemma upto_1_3: "[1..3] = [1, 2, 3::int]"
  by (simp add: upto.simps)

lemma upper_TCP: "upper ''TCP'' = ''TCP''"
  by (simp add: upper_def char_upper_def)

lemma mock_session_init: "init False (default_config\<lparr>mock_mode := True\<rparr>) = Inr mock_session"
  by (simp add: init_def validate_config_def default_config_def mock_session_def upper_def char_upper_def valid_baudrates_def)

lemma connected_mock_session_facts: "mock_mode connected_mock_session" "connected connected_mock_session"
  "callbacks connected_mock_session ''on_data_received'' = Some []"
  "mock_registers connected_mock_session = Map.empty"
  by (simp_all add: connected_mock_session_def connect_def with_lock_def mock_session_def new_session_def default_config_def
     initial_callbacks_def config.defs session.defs)


subsection \<open>Bytes and registers\<close>

lemma byte_bound: "0 \<le> uint (b::byte) \<and> uint b < 256"
  using uint_lt2p [of b] by simp

lemma register_hi: "(word_of_int ((uint (hi::byte) * 256 + uint (lo::byte)) div 256) :: byte) = hi"
  using byte_bound [of lo] by (simp add: div_pos_pos_trivial)

lemma register_lo: "(word_of_int ((uint (hi::byte) * 256 + uint (lo::byte)) mod 256) :: byte) = lo"
  using byte_bound [of lo] by simp

lemma register_range:
  "0 \<le> uint (hi::byte) * 256 + uint (lo::byte) \<and> uint hi * 256 + uint lo \<le> 65535"
  using byte_bound [of lo] byte_bound [of hi] by simp

lemma int_to_bytes2_register:
  "int_to_bytes2 (uint (hi::byte) * 256 + uint (lo::byte)) = Inr [hi, lo]"
  unfolding int_to_bytes2_def using register_range [of hi lo] register_hi [of hi lo]
    register_lo [of hi lo] by simp

lemma join_bytes_to_registers:
  "even (length bs) \<Longrightarrow> join_registers (bytes_to_registers bs) = Inr bs"
proof (induction bs rule: bytes_to_registers.induct)
  case 1
  show ?case by simp
next
  case (2 b)
  then show ?case by simp
next
  case (3 hi lo rest)
  then show ?case by (simp add: int_to_bytes2_register)
qed

lemma float_of_bytes_be_inverse:
  "float_of_bytes_be (ucast (drop_bit 24 v)) (ucast (drop_bit 16 v)) (ucast (drop_bit 8 v))
     (ucast v) = v"
  unfolding float_of_bytes_be_def
proof (rule bit_word_eqI)
  fix n :: nat
  assume n: "n < LENGTH(32)"
  consider "n < 8" | "8 \<le> n" "n < 16" | "16 \<le> n" "n < 24" | "24 \<le> n" "n < 32"
    using n by fastforce
  then show "bit (push_bit 24 (ucast (ucast (drop_bit 24 v) :: byte)) OR
                  push_bit 16 (ucast (ucast (drop_bit 16 v) :: byte)) OR
                  push_bit 8 (ucast (ucast (drop_bit 8 v) :: byte)) OR
                  ucast (ucast v :: byte) :: 32 word) n = bit v n"
    by cases (auto simp: bit_simps)
qed

lemma struct_unpack_pack: "struct_unpack fmt (struct_pack fmt v) = Inr v"
  by (simp add: struct_unpack_def struct_pack_def float_bytes_be_def float_of_bytes_be_inverse)

lemma length_struct_pack: "length (struct_pack fmt v) = 4"
  by (simp add: struct_pack_def float_bytes_be_def)

lemma decode_encode_float: "decode_float bo wo (encode_float bo wo v) = Inr v"
proof -
  let ?fmt = "if bo = ''>'' then ''>f'' else ''<f''"
  have enc: "encode_float bo wo v = bytes_to_registers (struct_pack ?fmt v)"
    by (simp add: encode_float_def to_registers_def add_32bit_float_def
        BinaryPayloadBuilder_init_def)
  have "join_registers (bytes_to_registers (struct_pack ?fmt v)) = Inr (struct_pack ?fmt v)"
    by (rule join_bytes_to_registers) (simp add: length_struct_pack)
  then have "decode_float bo wo (encode_float bo wo v) = struct_unpack ?fmt (struct_pack ?fmt v)"
    by (simp add: enc decode_float_def fromRegisters_def decode_32bit_float_def
        length_struct_pack)
  then show ?thesis by (simp only: struct_unpack_pack)
qed

lemma encode_float_registers:
  "length (encode_float bo wo v) = 2 \<and> (\<forall>r \<in> set (encode_float bo wo v). 0 \<le> r \<and> r \<le> 65535)"
  using register_range
  by (simp add: encode_float_def to_registers_def add_32bit_float_def
      BinaryPayloadBuilder_init_def struct_pack_def float_bytes_be_def)

subsection \<open>The float codec round trip\<close>

text \<open>
  C8: for every finite 32-bit float \<open>v\<close> and every byte order and word order, encoding
  \<open>v\<close> gives two registers of 16 bits, and decoding them with the same orders gives back
  the bit pattern of \<open>v\<close>.
\<close>

theorem float_codec_round_trip:
  "float32_finite v \<Longrightarrow>
     length (encode_float bo wo v) = 2 \<and>
     (\<forall>r \<in> set (encode_float bo wo v). 0 \<le> r \<and> r \<le> 65535) \<and>
     decode_float bo wo (encode_float bo wo v) = Inr v"
  using decode_encode_float [of bo wo v] encode_float_registers [of bo wo v] by simp

text \<open>The negative zero, with little-endian bytes and big-endian words.\<close>

theorem float_codec_round_trip_witness:
  "float32_finite 0x80000000 \<and>
   length (encode_float Endian_LITTLE Endian_BIG 0x80000000) = 2 \<and>
   decode_float Endian_LITTLE Endian_BIG (encode_float Endian_LITTLE Endian_BIG 0x80000000)
     = Inr 0x80000000"
proof -
  have fin: "float32_finite 0x80000000"
    by (simp add: float32_finite_def)
  show ?thesis
    using fin float_codec_round_trip [OF fin, of Endian_LITTLE Endian_BIG] by simp
qed

subsection \<open>The simulated register map\<close>

lemma range_py_0: "range_py 0 = []"
  by (simp add: range_py_def)

lemma mock_write_register_fields [simp]:
  "connected (snd (mock_write_register a v s)) = connected s"
  "mock_mode (snd (mock_write_register a v s)) = mock_mode s"
  "callbacks (snd (mock_write_register a v s)) = callbacks s"
  "last_error (snd (mock_write_register a v s)) = last_error s"
  "client (snd (mock_write_register a v s)) = client s"
  "trace (snd (mock_write_register a v s)) = trace s"
  "mock_registers (snd (mock_write_register a v s)) = (mock_registers s)(a \<mapsto> v)"
  by (simp_all add: mock_write_register_def)

lemma mock_write_all_snoc:
  "mock_write_all a (vs @ [v]) s =
     snd (mock_write_register (a + int (length vs)) v (mock_write_all a vs s))"
  by (simp add: mock_write_all_def enumerate_append_eq)

lemma mock_write_all_Nil [simp]: "mock_write_all a [] s = s"
  by (simp add: mock_write_all_def)

lemma mock_write_all_fields [simp]:
  "connected (mock_write_all a vs s) = connected s"
  "mock_mode (mock_write_all a vs s) = mock_mode s"
  "callbacks (mock_write_all a vs s) = callbacks s"
  "last_error (mock_write_all a vs s) = last_error s"
  "client (mock_write_all a vs s) = client s"
  "trace (mock_write_all a vs s) = trace s"
  by (induction vs rule: rev_induct; simp add: mock_write_all_snoc)+

lemma mock_write_all_lookup:
  "i < length vs \<Longrightarrow> mock_registers (mock_write_all a vs s) (a + int i) = Some (vs ! i)"
proof (induction vs rule: rev_induct)
  case Nil
  then show ?case by simp
next
  case (snoc v vs)
  show ?case
  proof (cases "i < length vs")
    case True
    with snoc.IH show ?thesis by (simp add: mock_write_all_snoc nth_append)
  next
    case False
    with snoc.prems have "i = length vs" by simp
    then show ?thesis by (simp add: mock_write_all_snoc)
  qed
qed

lemma mock_read_step_present:
  "mock_registers s (a + i) = Some v \<Longrightarrow> mock_read_step w a (values, s) i = (values @ [v], s)"
  by (simp add: mock_read_step_def)

lemma mock_read_present:
  "(\<And>i. i < n \<Longrightarrow> mock_registers s (a + int i) = Some (f i)) \<Longrightarrow>
     foldl (mock_read_step w a) ([], s) (map int [0..<n]) = (map f [0..<n], s)"
proof (induction n)
  case 0
  show ?case by simp
next
  case (Suc n)
  then have "foldl (mock_read_step w a) ([], s) (map int [0..<n]) = (map f [0..<n], s)"
    by simp
  moreover have "mock_registers s (a + int n) = Some (f n)"
    using Suc.prems by simp
  ultimately show ?case by (simp add: mock_read_step_present)
qed

lemma mock_read_registers_present:
  assumes "\<And>i. i < length vs \<Longrightarrow> mock_registers s (a + int i) = Some (vs ! i)"
  shows "mock_read_registers w a (int (length vs)) s = (vs, s)"
  using mock_read_present [of "length vs" s a "\<lambda>i. vs ! i" w] assms
  by (simp add: mock_read_registers_def range_py_def map_nth)

text \<open>
  C9: on a connected driver in mock mode, for every address and every sequence \<open>vs\<close> of
  values (of any length, every integer), \<^verbatim>\<open>write_registers(addr, vs)\<close> succeeds and
  \<^verbatim>\<open>read_holding_registers(addr, len(vs))\<close> run next returns exactly \<open>vs\<close>, in
  order.
\<close>

theorem mock_write_read_round_trip:
  assumes "mock_mode s" and "connected s"
  shows "fst (write_registers w address vs s) = Inr True \<and>
         fst (read_holding_registers w address (int (length vs))
                (snd (write_registers w address vs s))) = Inr vs"
proof -
  let ?s1 = "emit LockRelease (mock_write_all address vs (emit LockAcquire s))"
  have wr: "write_registers w address vs s = (Inr True, ?s1)"
    using assms by (simp add: write_registers_def ensure_connected_def with_lock_def)
  have present: "\<And>i. i < length vs \<Longrightarrow>
      mock_registers (emit LockAcquire ?s1) (address + int i) = Some (vs ! i)"
    by (simp add: mock_write_all_lookup)
  have "fst (read_holding_registers w address (int (length vs)) ?s1) = Inr vs"
    using assms mock_read_registers_present [OF present, of w]
    by (simp add: read_holding_registers_def ensure_connected_def read_locked_def with_lock_def)
  with wr show ?thesis by simp
qed


theorem mock_write_read_round_trip_witness:
  "mock_mode connected_mock_session \<and> connected connected_mock_session \<and>
   fst (write_registers quiet_world 2000 [10, 65535, 0, 42] connected_mock_session) = Inr True \<and>
   fst (read_holding_registers quiet_world 2000 4
          (snd (write_registers quiet_world 2000 [10, 65535, 0, 42] connected_mock_session)))
     = Inr [10, 65535, 0, 42]"
  using mock_write_read_round_trip [of connected_mock_session quiet_world 2000 "[10, 65535, 0, 42]"]
    connected_mock_session_facts
  by simp

text \<open>
  C10: on a connected driver in mock mode a read of \<open>count = 0\<close> registers does not fail:
  it returns the empty list and dispatches \<^verbatim>\<open>on_data_received\<close> with the address and
  an empty list of values to the callbacks registered for it, inside the lock; nothing else
  of the driver changes, the register map included.
\<close>

theorem mock_read_zero:
  assumes "mock_mode s" and "connected s"
    and "callbacks s ''on_data_received'' = Some cbs"
  shows "read_holding_registers w address 0 s =
           (Inr [],
            s\<lparr>trace := trace s @
               [LockAcquire, Dispatch ''on_data_received'' (RegisterData address []) cbs,
                LockRelease]\<rparr>)"
  using assms
  by (simp add: read_holding_registers_def ensure_connected_def read_locked_def with_lock_def
      mock_read_registers_def range_py_0 trigger_callbacks_def emit_def)

theorem mock_read_zero_witness:
  "mock_mode connected_mock_session \<and> connected connected_mock_session \<and>
   callbacks connected_mock_session ''on_data_received'' = Some [] \<and>
   fst (read_holding_registers quiet_world 1000 0 connected_mock_session) = Inr [] \<and>
   mock_registers (snd (read_holding_registers quiet_world 1000 0 connected_mock_session)) = Map.empty \<and>
   drop (length (trace connected_mock_session)) (trace (snd (read_holding_registers quiet_world 1000 0 connected_mock_session)))
     = [LockAcquire, Dispatch ''on_data_received'' (RegisterData 1000 []) [], LockRelease]"
  using mock_read_zero [of connected_mock_session "[]" quiet_world 1000] connected_mock_session_facts
  by simp

subsection \<open>Construction\<close>

text \<open>
  C7, as stated, fails: the constructor's defaults with a timeout of 0 are accepted, and the
  driver is built.
\<close>

theorem construction_accepts_zero_timeout:
  "timeout (default_config\<lparr>timeout := 0\<rparr>) \<le> 0 \<and>
   init True (default_config\<lparr>timeout := 0\<rparr>) = Inr (new_session (default_config\<lparr>timeout := 0\<rparr>))"
  by (simp add: init_def validate_config_def default_config_def upper_def char_upper_def
      valid_baudrates_def)

text \<open>
  C7, amended: when the Modbus library is missing and mock mode is off, construction fails
  with an \<open>ImportError\<close> before anything is validated. Otherwise construction succeeds
  exactly when the protocol name, the slave address, the baud rate, the byte size, the
  parity and the stop bits are valid, and fails with a \<open>SA32ConfigurationError\<close>
  otherwise. A failure leaves no driver. The timeout takes no part in it: changing it never
  changes whether construction succeeds.
\<close>

theorem construction_validates_six_parameters:
  "(if \<not> pymodbus_available \<and> \<not> mock_mode c then
      init pymodbus_available c = Inl (ImportError ''Le module pymodbus est requis.'')
    else if upper (protocol c) \<in> {''TCP'', ''RTU''} \<and> 1 \<le> slave_id c \<and> slave_id c \<le> 247 \<and>
         baudrate c \<in> {1200, 2400, 4800, 9600, 19200, 38400, 57600, 115200} \<and>
         bytesize c \<in> {7, 8} \<and> upper (parity c) \<in> {''N'', ''E'', ''O''} \<and>
         stopbits c \<in> {1, 2}
      then init pymodbus_available c = Inr (new_session c)
      else \<exists>m. init pymodbus_available c = Inl (SA32ConfigurationError m)) \<and>
   isl (init pymodbus_available (c\<lparr>timeout := t\<rparr>)) = isl (init pymodbus_available c)"
  by (auto simp add: init_def validate_config_def valid_baudrates_def)

theorem construction_validates_six_parameters_witness:
  "init True (default_config\<lparr>timeout := - 1\<rparr>) =
     Inr (new_session (default_config\<lparr>timeout := - 1\<rparr>)) \<and>
   init True (default_config\<lparr>slave_id := 0\<rparr>) =
     Inl (SA32ConfigurationError ''Slave ID invalide'') \<and>
   init False (default_config\<lparr>slave_id := 0, mock_mode := True\<rparr>) =
     Inl (SA32ConfigurationError ''Slave ID invalide'') \<and>
   init False (default_config\<lparr>slave_id := 0\<rparr>) =
     Inl (ImportError ''Le module pymodbus est requis.'')"
  using construction_validates_six_parameters [of True "default_config\<lparr>timeout := - 1\<rparr>" 0]
    construction_validates_six_parameters [of True "default_config\<lparr>slave_id := 0\<rparr>" 0]
    construction_validates_six_parameters [of False "default_config\<lparr>slave_id := 0\<rparr>" 0]
  by (simp add: default_config_def upper_def char_upper_def init_def validate_config_def)

subsection \<open>What the connection methods and the operations preserve\<close>

lemma with_lock_eq:
  "with_lock body s =
     (fst (body (emit LockAcquire s)), emit LockRelease (snd (body (emit LockAcquire s))))"
  by (simp add: with_lock_def split: prod.splits)

lemma connect_try_mock_mode [simp]: "mock_mode (snd (connect_try w s)) = mock_mode s"
  by (simp add: connect_try_def Let_def split: option.splits connect_outcome.splits)

lemma connect_try_has_client:
  "connected_has_client s \<Longrightarrow> connected_has_client (snd (connect_try w s))"
  by (simp add: connect_try_def connected_has_client_def Let_def
      split: option.splits connect_outcome.splits)

lemma connect_unfold:
  "connect w s =
     (let s0 = emit LockAcquire s in
      if connected s then (Inr True, emit LockRelease s0)
      else if mock_mode s then
        (Inr True, emit LockRelease (trigger_callbacks ''on_connect'' NoData (s0\<lparr>connected := True\<rparr>)))
      else
        case fst (connect_try w s0) of
          Inr r \<Rightarrow> (Inr r, emit LockRelease (snd (connect_try w s0)))
        | Inl e \<Rightarrow>
            (Inl (SA32ConnectionError (''Erreur lors de la connexion: '' @ str_exc e)),
             emit LockRelease
               (trigger_callbacks ''on_error''
                  (ErrorData \<lparr>status = True, code = - 1,
                     source = ''Erreur lors de la connexion: '' @ str_exc e\<rparr>)
                  ((snd (connect_try w s0))\<lparr>last_error :=
                     \<lparr>status = True, code = - 1,
                      source = ''Erreur lors de la connexion: '' @ str_exc e\<rparr>\<rparr>))))"
  by (simp add: connect_def with_lock_def Let_def split: prod.splits sum.splits)

lemma connect_mock_mode [simp]: "mock_mode (snd (connect w s)) = mock_mode s"
  by (simp add: connect_unfold Let_def split: sum.splits)

lemma connect_has_client:
  "\<not> mock_mode s \<Longrightarrow> connected_has_client s \<Longrightarrow> connected_has_client (snd (connect w s))"
  using connect_try_has_client [of "emit LockAcquire s" w]
  by (simp add: connect_unfold Let_def connected_has_client_def split: sum.splits)

lemma connect_mock:
  "mock_mode s \<Longrightarrow> fst (connect w s) = Inr True \<and> last_error (snd (connect w s)) = last_error s"
  by (simp add: connect_unfold Let_def)

lemma reconnect_loop_preserves:
  assumes conn: "\<And>s. P s \<Longrightarrow> P (snd (connect w s))"
    and em: "\<And>s x. P s \<Longrightarrow> P (emit (Sleep x) s)"
  shows "P s \<Longrightarrow> P (snd (reconnect_loop w attempts s))"
proof (induction attempts arbitrary: s)
  case Nil
  then show ?case by simp
next
  case (Cons attempt rest)
  obtain r s1 where c: "connect w s = (r, s1)"
    by (cases "connect w s")
  with conn [OF Cons.prems] have p1: "P s1" by simp
  show ?case
  proof (cases r)
    case (Inr ok)
    with c p1 Cons.IH [OF p1] show ?thesis by simp
  next
    case (Inl e)
    show ?thesis
    proof (cases e)
      case (SA32ConnectionError m)
      with c Inl p1 Cons.IH [OF p1] Cons.IH [OF em [OF p1]] show ?thesis
        by (simp add: sleep_def)
    qed (use c Inl p1 in simp_all)
  qed
qed

lemma ensure_connected_preserves:
  assumes conn: "\<And>s. P s \<Longrightarrow> P (snd (connect w s))"
    and em: "\<And>s x. P s \<Longrightarrow> P (emit (Sleep x) s)"
    and err: "\<And>s e d. P s \<Longrightarrow> P (trigger_callbacks ''on_error'' d (s\<lparr>last_error := e\<rparr>))"
  shows "P s \<Longrightarrow> P (snd (ensure_connected w s))"
  using reconnect_loop_preserves [of P w s "[1..max_reconnect_attempts s]", OF conn em] err [of s]
  by (simp add: ensure_connected_def attempt_reconnect_def Let_def split_beta split: sum.splits)

lemma ensure_connected_success_preserves:
  assumes conn: "\<And>s. P s \<Longrightarrow> P (snd (connect w s))"
    and em: "\<And>s x. P s \<Longrightarrow> P (emit (Sleep x) s)"
  shows "P s \<Longrightarrow> fst (ensure_connected w s) = Inr u \<Longrightarrow> P (snd (ensure_connected w s))"
  using reconnect_loop_preserves [of P w s "[1..max_reconnect_attempts s]", OF conn em]
  by (simp add: ensure_connected_def attempt_reconnect_def Let_def split_beta split: sum.splits if_splits)

lemma mock_read_step_fields:
  "connected (snd (mock_read_step w a acc i)) = connected (snd acc)"
  "client (snd (mock_read_step w a acc i)) = client (snd acc)"
  "mock_mode (snd (mock_read_step w a acc i)) = mock_mode (snd acc)"
  "last_error (snd (mock_read_step w a acc i)) = last_error (snd acc)"
  "callbacks (snd (mock_read_step w a acc i)) = callbacks (snd acc)"
  "trace (snd (mock_read_step w a acc i)) = trace (snd acc)"
  by (simp_all add: mock_read_step_def Let_def split_beta split: option.splits)

lemma mock_read_fold_fields:
  "connected (snd (foldl (mock_read_step w a) acc is)) = connected (snd acc) \<and>
   client (snd (foldl (mock_read_step w a) acc is)) = client (snd acc) \<and>
   mock_mode (snd (foldl (mock_read_step w a) acc is)) = mock_mode (snd acc) \<and>
   last_error (snd (foldl (mock_read_step w a) acc is)) = last_error (snd acc) \<and>
   callbacks (snd (foldl (mock_read_step w a) acc is)) = callbacks (snd acc) \<and>
   trace (snd (foldl (mock_read_step w a) acc is)) = trace (snd acc)"
  by (induction "is" arbitrary: acc) (simp_all add: mock_read_step_fields)

lemma mock_read_registers_fields [simp]:
  "connected (snd (mock_read_registers w a n s)) = connected s"
  "client (snd (mock_read_registers w a n s)) = client s"
  "mock_mode (snd (mock_read_registers w a n s)) = mock_mode s"
  "last_error (snd (mock_read_registers w a n s)) = last_error s"
  "callbacks (snd (mock_read_registers w a n s)) = callbacks s"
  "trace (snd (mock_read_registers w a n s)) = trace s"
  using mock_read_fold_fields [of w a "([], s)" "range_py n"]
  by (simp_all add: mock_read_registers_def)

lemma read_locked_unfold:
  "read_locked w req a n s =
     (let s0 = emit LockAcquire s in
      if mock_mode s then
        (Inr (fst (mock_read_registers w a n s0)),
         emit LockRelease
           (trigger_callbacks ''on_data_received''
              (RegisterData a (fst (mock_read_registers w a n s0)))
              (snd (mock_read_registers w a n s0))))
      else
        (fst (except_clauses ''Erreur inattendue lors de la lecture: '' (read_try w req a s0)),
         emit LockRelease
           (snd (except_clauses ''Erreur inattendue lors de la lecture: ''
                   (read_try w req a s0)))))"
  by (simp add: read_locked_def with_lock_def Let_def split: prod.splits)

lemma client_request_fields [simp]:
  "connected (snd (client_request w req s)) = connected s"
  "client (snd (client_request w req s)) = client s"
  "mock_mode (snd (client_request w req s)) = mock_mode s"
  by (simp_all add: client_request_def split: option.splits request_outcome.splits)

lemma response_error_fields [simp]:
  "connected (snd (response_error p ec t s)) = connected s"
  "client (snd (response_error p ec t s)) = client s"
  "mock_mode (snd (response_error p ec t s)) = mock_mode s"
  "fst (response_error p ec t s) = Inl (SA32CommunicationError (p @ t))"
  by (simp_all add: response_error_def Let_def)

lemma read_try_fields [simp]:
  "connected (snd (read_try w req a s)) = connected s"
  "client (snd (read_try w req a s)) = client s"
  "mock_mode (snd (read_try w req a s)) = mock_mode s"
  by (simp_all add: read_try_def split_beta split: sum.splits response.splits)

lemma write_try_fields [simp]:
  "connected (snd (write_try w req s)) = connected s"
  "client (snd (write_try w req s)) = client s"
  "mock_mode (snd (write_try w req s)) = mock_mode s"
  by (simp_all add: write_try_def split_beta split: sum.splits response.splits)

lemma except_clauses_fields [simp]:
  "connected (snd (except_clauses u r)) = connected (snd r)"
  "client (snd (except_clauses u r)) = client (snd r)"
  "mock_mode (snd (except_clauses u r)) = mock_mode (snd r)"
  by (simp_all add: except_clauses_def Let_def split_beta split: sum.splits)

lemma read_locked_fields [simp]:
  "connected (snd (read_locked w req a n s)) = connected s"
  "client (snd (read_locked w req a n s)) = client s"
  "mock_mode (snd (read_locked w req a n s)) = mock_mode s"
  by (simp_all add: read_locked_unfold Let_def)

lemma ensure_connected_mock_mode [simp]:
  "mock_mode (snd (ensure_connected w s)) = mock_mode s"
  using ensure_connected_preserves [of "\<lambda>s'. mock_mode s' = mock_mode s" w s]
  by simp

lemma ensure_connected_has_client:
  "\<not> mock_mode s \<Longrightarrow> connected_has_client s \<Longrightarrow>
     connected_has_client (snd (ensure_connected w s))"
  using ensure_connected_preserves [of "\<lambda>s'. \<not> mock_mode s' \<and> connected_has_client s'" w s]
    connect_has_client
  by (simp add: connected_has_client_def)

lemma ensure_connected_mock_last_error:
  "mock_mode s \<Longrightarrow> fst (ensure_connected w s) = Inr u \<Longrightarrow>
     last_error (snd (ensure_connected w s)) = last_error s"
  using ensure_connected_success_preserves
    [of "\<lambda>s'. mock_mode s' \<and> last_error s' = last_error s" w s u] connect_mock
  by simp

lemma disconnect_unfold:
  "disconnect w s =
     (let s0 = emit LockAcquire s in
      if \<not> connected s then ((), emit LockRelease s0)
      else if mock_mode s then
        ((), emit LockRelease (trigger_callbacks ''on_disconnect'' NoData (s0\<lparr>connected := False\<rparr>)))
      else
        case client s of
          None \<Rightarrow>
            ((), emit LockRelease
                   (trigger_callbacks ''on_disconnect'' NoData
                      (s0\<lparr>connected := False, client := None\<rparr>)))
        | Some c \<Rightarrow>
            (case close_result w (tick s) of
               None \<Rightarrow>
                 ((), emit LockRelease
                        (trigger_callbacks ''on_disconnect'' NoData
                           ((external_call ClientClose s0)\<lparr>connected := False, client := None\<rparr>)))
             | Some e \<Rightarrow>
                 ((), emit LockRelease
                        ((external_call ClientClose s0)\<lparr>connected := False, client := None\<rparr>))))"
  by (simp add: disconnect_def with_lock_def Let_def split: option.splits)

lemma disconnect_disconnected: "\<not> connected (snd (disconnect w s))"
  by (simp add: disconnect_unfold Let_def split: option.splits)

lemma disconnect_no_client:
  "\<not> mock_mode s \<Longrightarrow> connected s \<Longrightarrow> client (snd (disconnect w s)) = None"
  by (simp add: disconnect_unfold Let_def split: option.splits)

lemma read_holding_registers_unfold:
  "read_holding_registers w a n s =
     (case fst (ensure_connected w s) of
        Inl e \<Rightarrow> (Inl e, snd (ensure_connected w s))
      | Inr u \<Rightarrow>
          read_locked w (ReadHolding a n (slave_id (snd (ensure_connected w s)))) a n
            (snd (ensure_connected w s)))"
  by (simp add: read_holding_registers_def split_beta split: sum.splits)

lemma read_input_registers_unfold:
  "read_input_registers w a n s =
     (case fst (ensure_connected w s) of
        Inl e \<Rightarrow> (Inl e, snd (ensure_connected w s))
      | Inr u \<Rightarrow>
          read_locked w (ReadInput a n (slave_id (snd (ensure_connected w s)))) a n
            (snd (ensure_connected w s)))"
  by (simp add: read_input_registers_def split_beta split: sum.splits)

lemma write_register_unfold:
  "write_register w a v s =
     (case fst (ensure_connected w s) of
        Inl e \<Rightarrow> (Inl e, snd (ensure_connected w s))
      | Inr u \<Rightarrow>
          (let s1 = snd (ensure_connected w s); s2 = emit LockAcquire s1 in
           if mock_mode s then (Inr True, emit LockRelease (snd (mock_write_register a v s2)))
           else
             (fst (except_clauses ''Erreur inattendue lors de l'ecriture: ''
                     (write_try w (WriteSingle a v (slave_id s1)) s2)),
              emit LockRelease
                (snd (except_clauses ''Erreur inattendue lors de l'ecriture: ''
                        (write_try w (WriteSingle a v (slave_id s1)) s2))))))"
  by (simp add: write_register_def with_lock_def mock_write_register_def Let_def split_beta
      split: sum.splits)

lemma write_registers_unfold:
  "write_registers w a vs s =
     (case fst (ensure_connected w s) of
        Inl e \<Rightarrow> (Inl e, snd (ensure_connected w s))
      | Inr u \<Rightarrow>
          (let s1 = snd (ensure_connected w s); s2 = emit LockAcquire s1 in
           if mock_mode s then (Inr True, emit LockRelease (mock_write_all a vs s2))
           else
             (fst (except_clauses ''Erreur inattendue lors de l'ecriture: ''
                     (write_try w (WriteMultiple a vs (slave_id s1)) s2)),
              emit LockRelease
                (snd (except_clauses ''Erreur inattendue lors de l'ecriture: ''
                        (write_try w (WriteMultiple a vs (slave_id s1)) s2))))))"
  by (simp add: write_registers_def with_lock_def Let_def split_beta split: sum.splits)

lemma operations_keep_connection:
  "connected (snd (read_holding_registers w a n s)) = connected (snd (ensure_connected w s))"
  "client (snd (read_holding_registers w a n s)) = client (snd (ensure_connected w s))"
  "connected (snd (read_input_registers w a n s)) = connected (snd (ensure_connected w s))"
  "client (snd (read_input_registers w a n s)) = client (snd (ensure_connected w s))"
  "connected (snd (write_register w a v s)) = connected (snd (ensure_connected w s))"
  "client (snd (write_register w a v s)) = client (snd (ensure_connected w s))"
  "connected (snd (write_registers w a vs s)) = connected (snd (ensure_connected w s))"
  "client (snd (write_registers w a vs s)) = client (snd (ensure_connected w s))"
  by (simp_all add: read_holding_registers_unfold read_input_registers_unfold
      write_register_unfold write_registers_unfold Let_def split: sum.splits)

subsection \<open>The connection state and the client\<close>

text \<open>
  C4, as stated, fails: on a fresh driver over TCP a \<^verbatim>\<open>connect()\<close> that the transport
  refuses raises, leaves the driver disconnected, and leaves the client it built in
  \<^verbatim>\<open>self._client\<close>.
\<close>

theorem failed_connect_leaves_client:
  "\<not> mock_mode tcp_session \<and>
   fst (connect refusing_world tcp_session) =
     Inl (SA32ConnectionError
       ''Erreur lors de la connexion: Impossible de se connecter a l'equipement SA32'') \<and>
   \<not> connected (snd (connect refusing_world tcp_session)) \<and>
   client (snd (connect refusing_world tcp_session)) = Some ModbusTcpClient"
  by (simp add: refusing_world_def tcp_session_def scenario_defs driver_defs Let_def)

text \<open>
  C4, amended: for a driver that is not in mock mode, "a connected driver holds a client"
  is kept by \<^verbatim>\<open>connect\<close>, \<^verbatim>\<open>disconnect\<close>, the two reads and the two writes,
  on their failure paths too. The other direction is not kept: a client may stay behind
  in a disconnected driver.
\<close>

theorem connected_has_client_preserved:
  "\<not> mock_mode s \<Longrightarrow> connected_has_client s \<Longrightarrow>
     connected_has_client (snd (connect w s)) \<and>
     connected_has_client (snd (disconnect w s)) \<and>
     connected_has_client (snd (read_holding_registers w a n s)) \<and>
     connected_has_client (snd (read_input_registers w a n s)) \<and>
     connected_has_client (snd (write_register w a v s)) \<and>
     connected_has_client (snd (write_registers w a vs s))"
  using connect_has_client [of s w] disconnect_disconnected [of w s]
    ensure_connected_has_client [of s w]
  by (simp add: connected_has_client_def operations_keep_connection)

theorem connected_has_client_preserved_witness:
  "\<not> mock_mode connected_tcp_session \<and> connected connected_tcp_session \<and>
   client connected_tcp_session = Some ModbusTcpClient \<and>
   connected (snd (read_holding_registers illegal_address_world 1000 1 connected_tcp_session)) \<and>
   client (snd (read_holding_registers illegal_address_world 1000 1 connected_tcp_session))
     = Some ModbusTcpClient \<and>
   \<not> connected (snd (disconnect illegal_address_world connected_tcp_session)) \<and>
   client (snd (disconnect illegal_address_world connected_tcp_session)) = None"
  using connected_has_client_preserved
    [of connected_tcp_session illegal_address_world 1000 1 0 "[]"]
  by (simp add: connected_has_client_def illegal_address_world_def connected_tcp_session_def
      tcp_session_def scenario_defs driver_defs Let_def)

subsection \<open>The last error after a success\<close>

lemma except_clauses_success:
  "fst (except_clauses u r) = Inr x \<Longrightarrow> fst r = Inr x \<and> snd (except_clauses u r) = snd r"
  by (simp add: except_clauses_def Let_def split_beta split: sum.splits if_splits)

lemma read_try_success:
  "fst (read_try w req a s) = Inr vs \<Longrightarrow>
     last_error (snd (read_try w req a s)) = EquipmentError_default"
  by (simp add: read_try_def split_beta split: sum.splits response.splits)

lemma write_try_success:
  "fst (write_try w req s) = Inr ok \<Longrightarrow>
     last_error (snd (write_try w req s)) = EquipmentError_default"
  by (simp add: write_try_def split_beta split: sum.splits response.splits)

lemma read_locked_last_error:
  "fst (read_locked w req a n s) = Inr vs \<Longrightarrow>
     last_error (snd (read_locked w req a n s)) =
       (if mock_mode s then last_error s else EquipmentError_default)"
  using except_clauses_success
    [of "''Erreur inattendue lors de la lecture: ''" "read_try w req a (emit LockAcquire s)" vs]
    read_try_success [of w req a "emit LockAcquire s" vs]
  by (simp add: read_locked_unfold Let_def split: if_splits)

lemma read_holding_registers_last_error:
  "fst (read_holding_registers w a n s) = Inr vs \<Longrightarrow>
     last_error (snd (read_holding_registers w a n s)) =
       (if mock_mode s then last_error s else EquipmentError_default)"
  using ensure_connected_mock_last_error [of s w]
  by (auto simp add: read_holding_registers_unfold read_locked_last_error split: sum.splits)

lemma read_input_registers_last_error:
  "fst (read_input_registers w a n s) = Inr vs \<Longrightarrow>
     last_error (snd (read_input_registers w a n s)) =
       (if mock_mode s then last_error s else EquipmentError_default)"
  using ensure_connected_mock_last_error [of s w]
  by (auto simp add: read_input_registers_unfold read_locked_last_error split: sum.splits)

lemma write_register_last_error:
  "fst (write_register w a v s) = Inr ok \<Longrightarrow>
     last_error (snd (write_register w a v s)) =
       (if mock_mode s then last_error s else EquipmentError_default)"
  using ensure_connected_mock_last_error [of s w]
    except_clauses_success [of "''Erreur inattendue lors de l'ecriture: ''"
      "write_try w (WriteSingle a v (slave_id (snd (ensure_connected w s))))
         (emit LockAcquire (snd (ensure_connected w s)))" ok]
    write_try_success [of w "WriteSingle a v (slave_id (snd (ensure_connected w s)))"
      "emit LockAcquire (snd (ensure_connected w s))" ok]
  by (auto simp add: write_register_unfold Let_def split: sum.splits if_splits)

lemma write_registers_last_error:
  "fst (write_registers w a vs s) = Inr ok \<Longrightarrow>
     last_error (snd (write_registers w a vs s)) =
       (if mock_mode s then last_error s else EquipmentError_default)"
  using ensure_connected_mock_last_error [of s w]
    except_clauses_success [of "''Erreur inattendue lors de l'ecriture: ''"
      "write_try w (WriteMultiple a vs (slave_id (snd (ensure_connected w s))))
         (emit LockAcquire (snd (ensure_connected w s)))" ok]
    write_try_success [of w "WriteMultiple a vs (slave_id (snd (ensure_connected w s)))"
      "emit LockAcquire (snd (ensure_connected w s))" ok]
  by (auto simp add: write_registers_unfold Let_def split: sum.splits if_splits)

text \<open>
  C3, as stated, fails: on a connected driver over TCP whose last error is set by a read
  that failed, the next read succeeds and leaves the last error reset.
\<close>

theorem success_clears_last_error:
  "status (last_error failed_once_session) \<and> code (last_error failed_once_session) = - 2 \<and>
   connected failed_once_session \<and>
   fst (read_holding_registers flaky_world 1000 1 failed_once_session) = Inr [5] \<and>
   last_error (snd (read_holding_registers flaky_world 1000 1 failed_once_session)) =
     EquipmentError_default \<and>
   last_error (snd (read_holding_registers flaky_world 1000 1 failed_once_session)) \<noteq>
     last_error failed_once_session"
  by (simp add: failed_once_session_def flaky_world_def tcp_session_def
      EquipmentError_default_def scenario_defs driver_defs Let_def)

text \<open>
  C3, amended: a read or a write that succeeds leaves the last error as it was when the
  driver is in mock mode, and resets it to the no-error state when it is not;
  \<^verbatim>\<open>clear_error()\<close> and a fresh driver have the no-error state.
\<close>

theorem last_error_after_success:
  "(read_holding_registers w a n s = (Inr vs, s1) \<longrightarrow>
      last_error s1 = (if mock_mode s then last_error s else EquipmentError_default)) \<and>
   (read_input_registers w a n s = (Inr vs', s2) \<longrightarrow>
      last_error s2 = (if mock_mode s then last_error s else EquipmentError_default)) \<and>
   (write_register w a v s = (Inr ok, s3) \<longrightarrow>
      last_error s3 = (if mock_mode s then last_error s else EquipmentError_default)) \<and>
   (write_registers w a values s = (Inr ok', s4) \<longrightarrow>
      last_error s4 = (if mock_mode s then last_error s else EquipmentError_default)) \<and>
   last_error (clear_error s) = EquipmentError_default \<and>
   last_error (new_session c) = EquipmentError_default"
  using read_holding_registers_last_error [of w a n s vs]
    read_input_registers_last_error [of w a n s vs']
    write_register_last_error [of w a v s ok]
    write_registers_last_error [of w a "values" s ok']
  by (auto simp add: clear_error_def new_session_def config.defs session.defs)

theorem last_error_after_success_witness:
  "mock_mode errored_mock_session \<and> status (last_error errored_mock_session) \<and>
   write_register quiet_world 2000 100 errored_mock_session =
     (Inr True, snd (write_register quiet_world 2000 100 errored_mock_session)) \<and>
   last_error (snd (write_register quiet_world 2000 100 errored_mock_session)) =
     last_error errored_mock_session \<and>
   \<not> mock_mode failed_once_session \<and>
   write_register flaky_world 2000 100 failed_once_session =
     (Inr True, snd (write_register flaky_world 2000 100 failed_once_session)) \<and>
   last_error (snd (write_register flaky_world 2000 100 failed_once_session)) =
     EquipmentError_default"
proof -
  have m: "mock_mode errored_mock_session" "status (last_error errored_mock_session)"
    "connected errored_mock_session"
    by (simp_all add: errored_mock_session_def mock_session_def quiet_world_def
        scenario_defs driver_defs Let_def)
  have w1: "write_register quiet_world 2000 100 errored_mock_session =
     (Inr True, snd (write_register quiet_world 2000 100 errored_mock_session))"
    using m by (simp add: write_register_unfold ensure_connected_def Let_def)
  have n: "\<not> mock_mode failed_once_session" "connected failed_once_session"
    "client failed_once_session = Some ModbusTcpClient" "tick failed_once_session = 3"
    by (simp_all add: failed_once_session_def flaky_world_def tcp_session_def
        scenario_defs driver_defs Let_def)
  have w2: "write_register flaky_world 2000 100 failed_once_session =
     (Inr True, snd (write_register flaky_world 2000 100 failed_once_session))"
    using n
    by (simp add: write_register_unfold ensure_connected_def Let_def except_clauses_def
        write_try_def client_request_def flaky_world_def)
  show ?thesis
    using m n w1 w2
      last_error_after_success [of quiet_world 2000 0 errored_mock_session "[]" errored_mock_session
        "[]" errored_mock_session 100 True
        "snd (write_register quiet_world 2000 100 errored_mock_session)"]
      last_error_after_success [of flaky_world 2000 0 failed_once_session "[]" failed_once_session
        "[]" failed_once_session 100 True
        "snd (write_register flaky_world 2000 100 failed_once_session)"]
    by simp
qed

subsection \<open>The lock\<close>

lemma lock_depth_append: "lock_depth d (t1 @ t2) = lock_depth (lock_depth d t1) t2"
  by (induction d t1 rule: lock_depth.induct) simp_all

lemma lock_depth_single_client: "is_client_call e \<Longrightarrow> lock_depth d [e] = d"
  by (cases e) simp_all

lemma client_calls_locked_append:
  "client_calls_locked d (t1 @ t2) =
     (client_calls_locked d t1 \<and> client_calls_locked (lock_depth d t1) t2)"
proof (induction t1 arbitrary: d)
  case Nil
  show ?case by simp
next
  case (Cons e t1)
  show ?case
  proof (cases "is_client_call e")
    case True
    with Cons show ?thesis
      using lock_depth_append [of d "[e]" t1] by (simp add: lock_depth_single_client)
  next
    case False
    with Cons show ?thesis
      using lock_depth_append [of d "[e]" t1] by simp
  qed
qed

lemma locked_run_trans:
  "locked_run d s s1 \<Longrightarrow> locked_run d s1 s2 \<Longrightarrow> locked_run d s s2"
  by (auto simp add: client_calls_locked_append lock_depth_append)

lemma trigger_callbacks_trace:
  "trace (trigger_callbacks ev p s) =
     trace s @ (case callbacks s ev of None \<Rightarrow> [] | Some cbs \<Rightarrow> [Dispatch ev p cbs])"
  by (simp add: trigger_callbacks_def split: option.splits)

lemma connect_try_run:
  "locked_run (Suc d) s (snd (connect_try w s))"
  by (simp add: connect_try_def Let_def trigger_callbacks_trace
      split: option.splits connect_outcome.splits)

lemma connect_run: "locked_run d s (snd (connect w s))"
proof -
  obtain t where t: "trace (snd (connect_try w (emit LockAcquire s))) = trace s @ [LockAcquire] @ t"
    "client_calls_locked (Suc d) t" "lock_depth (Suc d) t = Suc d"
    using connect_try_run [where d = d and s = "emit LockAcquire s" and w = w] by auto
  then show ?thesis
    by (simp add: connect_unfold Let_def trigger_callbacks_trace client_calls_locked_append
        lock_depth_append split: sum.splits option.splits)
qed

lemma ensure_connected_run: "locked_run d s (snd (ensure_connected w s))"
proof -
  have "locked_run d s s"
    by simp
  moreover have "\<And>s'. locked_run d s s' \<Longrightarrow> locked_run d s (snd (connect w s'))"
    using connect_run locked_run_trans by blast
  moreover have "\<And>s' x. locked_run d s s' \<Longrightarrow> locked_run d s (emit (Sleep x) s')"
    by (auto simp add: client_calls_locked_append lock_depth_append)
  moreover have "\<And>s' e p. locked_run d s s' \<Longrightarrow>
      locked_run d s (trigger_callbacks ''on_error'' p (s'\<lparr>last_error := e\<rparr>))"
    by (auto simp add: trigger_callbacks_trace client_calls_locked_append lock_depth_append
        split: option.splits)
  ultimately show ?thesis
    by (rule ensure_connected_preserves [where P = "\<lambda>s'. locked_run d s s'", rotated 3])
qed

lemma client_request_trace:
  "trace (snd (client_request w req s)) =
     trace s @ (case client s of None \<Rightarrow> [] | Some c \<Rightarrow> [ClientRequest req])"
  by (simp add: client_request_def split: option.splits request_outcome.splits)

lemma response_error_trace: "trace (snd (response_error p ec t s)) = trace s"
  by (simp add: response_error_def Let_def)

lemma read_try_run: "locked_run (Suc d) s (snd (read_try w req a s))"
  by (simp add: read_try_def split_beta client_request_trace response_error_trace
      trigger_callbacks_trace split: sum.splits response.splits option.splits)

lemma write_try_run: "locked_run (Suc d) s (snd (write_try w req s))"
  by (simp add: write_try_def split_beta client_request_trace response_error_trace
      split: sum.splits response.splits option.splits)

lemma except_clauses_run: "locked_run d (snd r) (snd (except_clauses u r))"
  by (simp add: except_clauses_def Let_def split_beta trigger_callbacks_trace
      split: sum.splits option.splits)

lemma with_lock_run:
  assumes "locked_run (Suc d) (emit LockAcquire s) s'"
  shows "locked_run d s (emit LockRelease s')"
  using assms
  by (auto simp add: client_calls_locked_append lock_depth_append)

lemma read_locked_run: "locked_run d s (snd (read_locked w req a n s))"
proof (cases "mock_mode s")
  case True
  then show ?thesis
    by (simp add: read_locked_unfold Let_def trigger_callbacks_trace split: option.splits)
next
  case False
  have "locked_run (Suc d) (emit LockAcquire s)
          (snd (except_clauses ''Erreur inattendue lors de la lecture: ''
                  (read_try w req a (emit LockAcquire s))))"
    using read_try_run [where d = d and s = "emit LockAcquire s" and w = w and req = req and a = a]
      except_clauses_run [where d = "Suc d" and r = "read_try w req a (emit LockAcquire s)"
        and u = "''Erreur inattendue lors de la lecture: ''"]
      locked_run_trans by blast
  from with_lock_run [OF this] False show ?thesis
    by (simp add: read_locked_unfold Let_def)
qed

lemma write_locked_run:
  "locked_run d s
     (emit LockRelease
        (snd (except_clauses u (write_try w req (emit LockAcquire s)))))"
proof -
  have "locked_run (Suc d) (emit LockAcquire s)
          (snd (except_clauses u (write_try w req (emit LockAcquire s))))"
    using write_try_run [where d = d and s = "emit LockAcquire s" and w = w and req = req]
      except_clauses_run [where d = "Suc d" and r = "write_try w req (emit LockAcquire s)"
        and u = u]
      locked_run_trans by blast
  from with_lock_run [OF this] show ?thesis .
qed

lemma read_holding_registers_run: "locked_run d s (snd (read_holding_registers w a n s))"
proof (cases "fst (ensure_connected w s)")
  case (Inl e)
  then show ?thesis
    using ensure_connected_run [where d = d and s = s and w = w]
    by (simp add: read_holding_registers_unfold)
next
  case (Inr u)
  then show ?thesis
    using ensure_connected_run [where d = d and s = s and w = w]
      read_locked_run [where d = d and s = "snd (ensure_connected w s)" and w = w and a = a
        and n = n and req = "ReadHolding a n (slave_id (snd (ensure_connected w s)))"]
      locked_run_trans [where d = d and s = s and ?s1.0 = "snd (ensure_connected w s)"]
    by (simp add: read_holding_registers_unfold)
qed

lemma read_input_registers_run: "locked_run d s (snd (read_input_registers w a n s))"
proof (cases "fst (ensure_connected w s)")
  case (Inl e)
  then show ?thesis
    using ensure_connected_run [where d = d and s = s and w = w]
    by (simp add: read_input_registers_unfold)
next
  case (Inr u)
  then show ?thesis
    using ensure_connected_run [where d = d and s = s and w = w]
      read_locked_run [where d = d and s = "snd (ensure_connected w s)" and w = w and a = a
        and n = n and req = "ReadInput a n (slave_id (snd (ensure_connected w s)))"]
      locked_run_trans [where d = d and s = s and ?s1.0 = "snd (ensure_connected w s)"]
    by (simp add: read_input_registers_unfold)
qed

lemma mock_write_run:
  "trace s' = trace (emit LockAcquire s) \<Longrightarrow> locked_run d s (emit LockRelease s')"
  by simp

lemma write_register_run: "locked_run d s (snd (write_register w a v s))"
proof (cases "fst (ensure_connected w s)")
  case (Inl e)
  then show ?thesis
    using ensure_connected_run [where d = d and s = s and w = w]
    by (simp add: write_register_unfold)
next
  case (Inr u)
  let ?s1 = "snd (ensure_connected w s)"
  have "locked_run d ?s1 (snd (write_register w a v s))"
    using Inr write_locked_run [where d = d and s = ?s1 and w = w
        and req = "WriteSingle a v (slave_id ?s1)"
        and u = "''Erreur inattendue lors de l'ecriture: ''"]
      mock_write_run [where d = d and s = ?s1
        and s' = "snd (mock_write_register a v (emit LockAcquire ?s1))"]
    by (simp add: write_register_unfold Let_def)
  with ensure_connected_run [where d = d and s = s and w = w] show ?thesis
    using locked_run_trans by blast
qed

lemma write_registers_run: "locked_run d s (snd (write_registers w a vs s))"
proof (cases "fst (ensure_connected w s)")
  case (Inl e)
  then show ?thesis
    using ensure_connected_run [where d = d and s = s and w = w]
    by (simp add: write_registers_unfold)
next
  case (Inr u)
  let ?s1 = "snd (ensure_connected w s)"
  have "locked_run d ?s1 (snd (write_registers w a vs s))"
    using Inr write_locked_run [where d = d and s = ?s1 and w = w
        and req = "WriteMultiple a vs (slave_id ?s1)"
        and u = "''Erreur inattendue lors de l'ecriture: ''"]
      mock_write_run [where d = d and s = ?s1
        and s' = "mock_write_all a vs (emit LockAcquire ?s1)"]
    by (simp add: write_registers_unfold Let_def)
  with ensure_connected_run [where d = d and s = s and w = w] show ?thesis
    using locked_run_trans by blast
qed

lemma locked_run_disciplined: "locked_run 0 s s' \<Longrightarrow> lock_disciplined s s'"
  by (auto simp add: lock_disciplined_def new_events_def)

lemma reconnect_run_append:
  "reconnect_run ph (t1 @ t2) =
     (case reconnect_run ph t1 of None \<Rightarrow> None | Some q \<Rightarrow> reconnect_run q t2)"
  by (induction t1 arbitrary: ph) (simp_all split: option.splits)

lemma sections_run_trans:
  "sections_run s s1 \<Longrightarrow> sections_run s1 s2 \<Longrightarrow> sections_run s s2"
  by (auto simp add: reconnect_run_append)

lemma connect_try_sections:
  "\<exists>t. trace (snd (connect_try w s)) = trace s @ t \<and>
       (reconnect_run Held t = Some Built \<or> reconnect_run Held t = Some Opened)"
  by (simp add: connect_try_def Let_def trigger_callbacks_trace
      split: option.splits connect_outcome.splits)

lemma connect_sections:
  "\<exists>t. trace (snd (connect w s)) = trace s @ LockAcquire # t \<and>
       reconnect_run Held t = Some Free"
proof -
  obtain t where t: "trace (snd (connect_try w (emit LockAcquire s))) = trace s @ [LockAcquire] @ t"
    "reconnect_run Held t = Some Built \<or> reconnect_run Held t = Some Opened"
    using connect_try_sections [where s = "emit LockAcquire s" and w = w] by auto
  then show ?thesis
    by (auto simp add: connect_unfold Let_def trigger_callbacks_trace reconnect_run_append
        split: sum.splits option.splits)
qed

lemma connect_sections_run: "sections_run s (snd (connect w s))"
  using connect_sections [of w s] by auto

lemma ensure_connected_sections_run: "sections_run s (snd (ensure_connected w s))"
proof -
  have "sections_run s s"
    by simp
  moreover have "\<And>s'. sections_run s s' \<Longrightarrow> sections_run s (snd (connect w s'))"
    using connect_sections_run sections_run_trans by blast
  moreover have "\<And>s' x. sections_run s s' \<Longrightarrow> sections_run s (emit (Sleep x) s')"
    by (auto simp add: reconnect_run_append)
  moreover have "\<And>s' e p. sections_run s s' \<Longrightarrow>
      sections_run s (trigger_callbacks ''on_error'' p (s'\<lparr>last_error := e\<rparr>))"
    by (auto simp add: trigger_callbacks_trace reconnect_run_append split: option.splits)
  ultimately show ?thesis
    by (rule ensure_connected_preserves [where P = "\<lambda>s'. sections_run s s'", rotated 3])
qed

lemma reconnect_loop_grows:
  "\<exists>t. trace (snd (reconnect_loop w attempts s)) = trace s @ t"
proof -
  have "\<exists>t. trace s = trace s @ t"
    by simp
  moreover have "\<And>s'. \<exists>t. trace s' = trace s @ t \<Longrightarrow>
      \<exists>t. trace (snd (connect w s')) = trace s @ t"
    using connect_sections by (metis append.assoc)
  moreover have "\<And>s' x. \<exists>t. trace s' = trace s @ t \<Longrightarrow>
      \<exists>t. trace (emit (Sleep x) s') = trace s @ t"
    by auto
  ultimately show ?thesis
    by (rule reconnect_loop_preserves [where P = "\<lambda>s'. \<exists>t. trace s' = trace s @ t", rotated 2])
qed

lemma reconnect_loop_first_attempt:
  "\<exists>t. trace (snd (reconnect_loop w (attempt # rest) s)) = trace s @ LockAcquire # t"
proof -
  obtain r s1 where c: "connect w s = (r, s1)"
    by (cases "connect w s")
  obtain t1 where t1: "trace s1 = trace s @ LockAcquire # t1"
    using connect_sections [of w s] c by auto
  have grow: "\<And>s'. \<exists>t. trace s' = trace s1 @ t \<Longrightarrow> \<exists>t. trace s' = trace s @ LockAcquire # t"
    using t1 by auto
  have "\<exists>t. trace (snd (reconnect_loop w (attempt # rest) s)) = trace s1 @ t"
  proof (cases r)
    case (Inr ok)
    with c reconnect_loop_grows [of w rest s1] show ?thesis by simp
  next
    case (Inl e)
    show ?thesis
    proof (cases e)
      case (SA32ConnectionError m)
      with c Inl reconnect_loop_grows [of w rest s1]
        reconnect_loop_grows [of w rest "emit (Sleep (reconnect_delay s1)) s1"]
      show ?thesis by (auto simp add: sleep_def)
    qed (use c Inl in simp_all)
  qed
  then show ?thesis by (rule grow)
qed

lemma upto_from_1: "1 \<le> m \<Longrightarrow> [1..m] = 1 # [2..m]"
  by (simp add: upto.simps)

lemma upto_below_1: "\<not> 1 \<le> m \<Longrightarrow> [1..m] = []"
  by simp

lemma ensure_connected_auto_snd:
  "\<not> connected s \<Longrightarrow> auto_reconnect s \<Longrightarrow>
     snd (ensure_connected w s) = snd (reconnect_loop w [1..max_reconnect_attempts s] s)"
  by (simp add: ensure_connected_def attempt_reconnect_def split_beta split: sum.splits)

lemma ensure_connected_acquires:
  "(LockAcquire \<in> set (new_events s (snd (ensure_connected w s)))) =
     (\<not> connected s \<and> auto_reconnect s \<and> 1 \<le> max_reconnect_attempts s)"
proof (cases "\<not> connected s \<and> auto_reconnect s \<and> 1 \<le> max_reconnect_attempts s")
  case True
  obtain t where "trace (snd (reconnect_loop w (1 # [2..max_reconnect_attempts s]) s)) =
      trace s @ LockAcquire # t"
    using reconnect_loop_first_attempt by blast
  moreover have "snd (ensure_connected w s) =
      snd (reconnect_loop w (1 # [2..max_reconnect_attempts s]) s)"
    using True ensure_connected_auto_snd [of s w] upto_from_1 [of "max_reconnect_attempts s"]
    by (simp del: reconnect_loop.simps)
  ultimately have "new_events s (snd (ensure_connected w s)) = LockAcquire # t"
    by (simp add: new_events_def del: reconnect_loop.simps)
  with True show ?thesis by simp
next
  case False
  then show ?thesis
    by (auto simp add: ensure_connected_def attempt_reconnect_def upto_below_1 Let_def
        new_events_def trigger_callbacks_trace split: option.splits)
qed

lemma transfer_body_append:
  "transfer_events t1 \<Longrightarrow> transfer_body t2 \<Longrightarrow> transfer_body (t1 @ t2)"
  by (induction t1) auto

lemma read_try_transfer:
  "\<exists>t. trace (snd (read_try w req a s)) = trace s @ t \<and> transfer_events t"
  by (auto simp add: read_try_def split_beta client_request_trace response_error_trace
      trigger_callbacks_trace split: sum.splits response.splits option.splits)


lemma except_clauses_transfer:
  "\<exists>t. trace (snd (except_clauses u r)) = trace (snd r) @ t \<and> transfer_events t"
  by (auto simp add: except_clauses_def Let_def split_beta trigger_callbacks_trace
      split: sum.splits option.splits)

lemma with_lock_transfer:
  assumes "\<exists>t. trace s' = trace (emit LockAcquire s) @ t \<and> transfer_events t"
  shows "take (length (trace s)) (trace (emit LockRelease s')) = trace s \<and>
         transfer_section (new_events s (emit LockRelease s'))"
proof -
  obtain t where t: "trace s' = trace s @ LockAcquire # t" "transfer_events t"
    using assms by auto
  have "transfer_body (t @ [LockRelease])"
    using t(2) by (rule transfer_body_append) simp
  with t(1) show ?thesis
    by (simp add: new_events_def)
qed

lemma except_try_transfer:
  assumes "\<exists>t. trace (snd r) = trace s0 @ t \<and> transfer_events t"
  shows "\<exists>t. trace (snd (except_clauses u r)) = trace s0 @ t \<and> transfer_events t"
proof -
  obtain t1 where t1: "trace (snd r) = trace s0 @ t1" "transfer_events t1"
    using assms by auto
  obtain t2 where t2: "trace (snd (except_clauses u r)) = trace (snd r) @ t2" "transfer_events t2"
    using except_clauses_transfer by blast
  have "trace (snd (except_clauses u r)) = trace s0 @ (t1 @ t2) \<and> transfer_events (t1 @ t2)"
    using t1 t2 by auto
  then show ?thesis by blast
qed

lemma read_locked_transfer:
  "take (length (trace s)) (trace (snd (read_locked w req a n s))) = trace s \<and>
   transfer_section (new_events s (snd (read_locked w req a n s)))"
proof (cases "mock_mode s")
  case True
  then show ?thesis
    by (simp add: read_locked_unfold Let_def trigger_callbacks_trace new_events_def
        split: option.splits)
next
  case False
  have "\<exists>t. trace (snd (except_clauses ''Erreur inattendue lors de la lecture: ''
                  (read_try w req a (emit LockAcquire s)))) =
            trace (emit LockAcquire s) @ t \<and> transfer_events t"
    by (rule except_try_transfer) (rule read_try_transfer)
  from with_lock_transfer [OF this] False show ?thesis
    by (simp add: read_locked_unfold Let_def)
qed



lemma ensure_connected_pattern:
  "take (length (trace s)) (trace (snd (ensure_connected w s))) = trace s \<and>
   reconnect_sections (new_events s (snd (ensure_connected w s)))"
  using ensure_connected_sections_run [where s = s and w = w]
  by (auto simp add: reconnect_sections_def new_events_def)

lemma outer_acquisitions_append:
  "outer_acquisitions d (t1 @ t2) =
     outer_acquisitions d t1 + outer_acquisitions (lock_depth d t1) t2"
  by (induction d t1 rule: outer_acquisitions.induct) simp_all

lemma reconnect_run_depth:
  "reconnect_run ph t = Some q \<Longrightarrow>
     lock_depth (phase_depth ph) t = phase_depth q \<and>
     outer_acquisitions (phase_depth ph) t = count_list t LockAcquire"
proof (induction t arbitrary: ph)
  case Nil
  then show ?case by simp
next
  case (Cons e t)
  note ih = Cons.IH [of Free] Cons.IH [of Held] Cons.IH [of Built] Cons.IH [of Opened]
  show ?case
  proof (cases e)
    case LockAcquire
    with Cons.prems ih show ?thesis by (cases ph) (simp_all split: if_splits)
  next
    case LockRelease
    with Cons.prems ih show ?thesis by (cases ph) (simp_all split: if_splits)
  next
    case (ClientCreate c)
    with Cons.prems ih show ?thesis by (cases ph) (simp_all split: if_splits)
  next
    case ClientConnect
    with Cons.prems ih show ?thesis by (cases ph) (simp_all split: if_splits)
  next
    case ClientClose
    with Cons.prems show ?thesis by simp
  next
    case (ClientRequest r)
    with Cons.prems show ?thesis by simp
  next
    case (Sleep x)
    with Cons.prems ih show ?thesis by (cases ph) (simp_all split: if_splits)
  next
    case (Dispatch ev p cbs)
    with Cons.prems ih show ?thesis by (cases ph) (simp_all split: if_splits)
  qed
qed

lemma reconnect_sections_depth:
  "reconnect_sections t \<Longrightarrow>
     lock_depth 0 t = 0 \<and> outer_acquisitions 0 t = count_list t LockAcquire"
  using reconnect_run_depth [of Free t Free] by (simp add: reconnect_sections_def)

lemma transfer_body_depth:
  "transfer_body t \<Longrightarrow> lock_depth (Suc 0) t = 0 \<and> outer_acquisitions (Suc 0) t = 0"
  by (induction t rule: transfer_body.induct) simp_all

lemma transfer_section_depth:
  "transfer_section t \<Longrightarrow> outer_acquisitions 0 t = 1"
  using transfer_body_depth by (cases t rule: transfer_section.cases) simp_all

lemma new_events_append:
  "take (length (trace s)) (trace s1) = trace s \<Longrightarrow>
   take (length (trace s1)) (trace s2) = trace s1 \<Longrightarrow>
     new_events s s2 = new_events s s1 @ new_events s1 s2"
proof -
  assume a: "take (length (trace s)) (trace s1) = trace s"
    and b: "take (length (trace s1)) (trace s2) = trace s1"
  have s1: "trace s1 = trace s @ new_events s s1"
    using a append_take_drop_id [of "length (trace s)" "trace s1"] by (simp add: new_events_def)
  have s2: "trace s2 = trace s1 @ new_events s1 s2"
    using b append_take_drop_id [of "length (trace s1)" "trace s2"] by (simp add: new_events_def)
  have "trace s2 = trace s @ (new_events s s1 @ new_events s1 s2)"
    using s1 s2 by simp
  then have "drop (length (trace s)) (trace s2) = new_events s s1 @ new_events s1 s2"
    by simp
  then show ?thesis by (simp add: new_events_def)
qed

lemma operation_lock_patternI:
  assumes "\<And>e. fst (ensure_connected w s) = Inl e \<Longrightarrow> s2 = snd (ensure_connected w s)"
    and "\<And>u. fst (ensure_connected w s) = Inr u \<Longrightarrow>
           take (length (trace (snd (ensure_connected w s)))) (trace s2) =
             trace (snd (ensure_connected w s)) \<and>
           transfer_section (new_events (snd (ensure_connected w s)) s2)"
  shows "operation_lock_pattern s (ensure_connected w s) s2"
proof -
  let ?r = "fst (ensure_connected w s)"
  let ?s1 = "snd (ensure_connected w s)"
  have a1: "take (length (trace s)) (trace ?s1) = trace s"
    and a3: "reconnect_sections (new_events s ?s1)"
    using ensure_connected_pattern [of s w] by simp_all
  have a2: "take (length (trace ?s1)) (trace s2) = trace ?s1"
  proof (cases ?r)
    case (Inl e)
    from assms(1) [OF this] show ?thesis by simp
  next
    case (Inr u)
    from assms(2) [OF this] show ?thesis by simp
  qed
  have a4: "(LockAcquire \<in> set (new_events s ?s1)) =
      (\<not> connected s \<and> auto_reconnect s \<and> 1 \<le> max_reconnect_attempts s)"
    by (rule ensure_connected_acquires)
  have a5: "(case ?r of Inl e \<Rightarrow> new_events ?s1 s2 = []
             | Inr u \<Rightarrow> transfer_section (new_events ?s1 s2))"
  proof (cases ?r)
    case (Inl e)
    from assms(1) [OF this] have "new_events ?s1 s2 = []"
      by (simp add: new_events_def)
    with Inl show ?thesis by simp
  next
    case (Inr u)
    from assms(2) [OF this] Inr show ?thesis by simp
  qed
  have split: "new_events s s2 = new_events s ?s1 @ new_events ?s1 s2"
    using a1 a2 by (rule new_events_append)
  have free: "lock_depth 0 (new_events s ?s1) = 0"
    and cnt: "outer_acquisitions 0 (new_events s ?s1) = count_list (new_events s ?s1) LockAcquire"
    using reconnect_sections_depth [OF a3] by simp_all
  have tail: "outer_acquisitions 0 (new_events ?s1 s2) = (case ?r of Inl e \<Rightarrow> 0 | Inr u \<Rightarrow> 1)"
  proof (cases ?r)
    case (Inl e)
    with a5 show ?thesis by simp
  next
    case (Inr u)
    with a5 have "transfer_section (new_events ?s1 s2)" by simp
    from transfer_section_depth [OF this] Inr show ?thesis by simp
  qed
  have a6: "outer_acquisitions 0 (new_events s s2) =
      count_list (new_events s ?s1) LockAcquire + (case ?r of Inl e \<Rightarrow> 0 | Inr u \<Rightarrow> 1)"
    by (simp only: split outer_acquisitions_append free cnt tail)
  show ?thesis
    unfolding operation_lock_pattern_def split_beta
    using a1 a2 a3 a4 a5 a6 by blast
qed

lemma read_holding_registers_pattern:
  "operation_lock_pattern s (ensure_connected w s) (snd (read_holding_registers w a n s))"
  by (rule operation_lock_patternI)
     (simp_all add: read_holding_registers_unfold read_locked_transfer)





text \<open>
  For a read: when a reconnection is attempted and the transfer is reached, the lock is
  taken from free at least twice; when the driver is connected, exactly once.
\<close>

lemma reconnect_then_transfer_acquisitions:
  assumes "\<not> connected s" and "auto_reconnect s" and "1 \<le> max_reconnect_attempts s"
    and "fst (ensure_connected w s) = Inr u"
  shows "2 \<le> outer_acquisitions 0 (new_events s (snd (read_holding_registers w a n s)))"
proof -
  let ?E = "new_events s (snd (ensure_connected w s))"
  have p: "operation_lock_pattern s (ensure_connected w s) (snd (read_holding_registers w a n s))"
    by (rule read_holding_registers_pattern)
  with assms have "LockAcquire \<in> set ?E"
    by (simp add: operation_lock_pattern_def split_beta)
  then have "1 \<le> count_list ?E LockAcquire"
    using count_list_0_iff [of ?E LockAcquire] by (cases "count_list ?E LockAcquire") simp_all
  moreover from p assms(4)
  have "outer_acquisitions 0 (new_events s (snd (read_holding_registers w a n s))) =
      count_list ?E LockAcquire + 1"
    by (simp add: operation_lock_pattern_def split_beta)
  ultimately show ?thesis by simp
qed

lemma connected_one_acquisition:
  assumes "connected s"
  shows "outer_acquisitions 0 (new_events s (snd (read_holding_registers w a n s))) = 1"
proof -
  let ?E = "new_events s (snd (ensure_connected w s))"
  have p: "operation_lock_pattern s (ensure_connected w s) (snd (read_holding_registers w a n s))"
    by (rule read_holding_registers_pattern)
  have r: "fst (ensure_connected w s) = Inr ()"
    using assms by (simp add: ensure_connected_def)
  from p assms have "LockAcquire \<notin> set ?E"
    by (simp add: operation_lock_pattern_def split_beta)
  then have "count_list ?E LockAcquire = 0"
    by (simp add: count_list_0_iff)
  with p r show ?thesis
    by (simp add: operation_lock_pattern_def split_beta)
qed

lemma operations_lock_disciplined:
  "lock_disciplined s (snd (read_holding_registers w a n s)) \<and>
   lock_disciplined s (snd (read_input_registers w a n s)) \<and>
   lock_disciplined s (snd (write_register w a v s)) \<and>
   lock_disciplined s (snd (write_registers w a vs s))"
  using read_holding_registers_run [where d = 0 and s = s and w = w and a = a and n = n]
    read_input_registers_run [where d = 0 and s = s and w = w and a = a and n = n]
    write_register_run [where d = 0 and s = s and w = w and a = a and v = v]
    write_registers_run [where d = 0 and s = s and w = w and a = a and vs = vs]
  by (simp only: locked_run_disciplined)


subsection \<open>Reconnection, error responses and teardown\<close>

text \<open>
  With automatic reconnection, \<^verbatim>\<open>_ensure_connected\<close> never raises a
  \<open>SA32ConnectionError\<close>: the loop catches the one of every attempt, and its result is
  dropped.
\<close>

lemma connect_outcome_cases:
  "fst (connect w s) = Inr True \<or> (\<exists>m. fst (connect w s) = Inl (SA32ConnectionError m))"
  by (simp add: connect_unfold connect_try_def Let_def
      split: sum.splits option.splits connect_outcome.splits)

lemma reconnect_loop_outcome:
  "(\<exists>b. fst (reconnect_loop w attempts s) = Inr b) \<or>
   (\<exists>m. fst (reconnect_loop w attempts s) = Inl (ValueError m))"
proof (induction attempts arbitrary: s)
  case Nil
  show ?case by auto
next
  case (Cons attempt rest)
  obtain r s1 where c: "connect w s = (r, s1)"
    by (cases "connect w s")
  from connect_outcome_cases [of w s] c
  consider "r = Inr True" | m where "r = Inl (SA32ConnectionError m)"
    by auto
  then show ?case
  proof cases
    case 1
    with c show ?thesis by auto
  next
    case 2
    with c Cons.IH [of s1] Cons.IH [of "emit (Sleep (reconnect_delay s1)) s1"] show ?thesis
      by (simp add: sleep_def)
  qed
qed

lemma ensure_connected_never_connection_error:
  "auto_reconnect s \<Longrightarrow> fst (ensure_connected w s) \<noteq> Inl (SA32ConnectionError m)"
  using reconnect_loop_outcome [of w "[1..max_reconnect_attempts s]" s]
  by (auto simp add: ensure_connected_def attempt_reconnect_def split_beta split: sum.splits)

text \<open>
  C1: in the reconnection scenario (automatic reconnection, three attempts, no delay, a
  transport that never opens) \<^verbatim>\<open>_ensure_connected\<close> makes exactly three calls of the
  client's \<^verbatim>\<open>connect()\<close>, leaves the driver disconnected and returns without raising;
  the read that called it goes on to the stale client and fails with a
  \<open>SA32CommunicationError\<close>, not with a \<open>SA32ConnectionError\<close>.
\<close>

theorem ensure_connected_exhausted:
  "fst (ensure_connected refusing_world reconnecting_session) = Inr () \<and>
   \<not> connected (snd (ensure_connected refusing_world reconnecting_session)) \<and>
   length (filter (\<lambda>e. e = ClientConnect)
             (trace (snd (ensure_connected refusing_world reconnecting_session)))) = 3 \<and>
   fst (read_holding_registers refusing_world 1000 1 reconnecting_session) =
     Inl (SA32CommunicationError ''Exception Modbus: Connection to device failed'')"
  by (simp add: refusing_world_def reconnecting_session_def scenario_defs driver_defs Let_def upto_1_3)

text \<open>
  An exception response to a read always ends with the code -3 in the last error,
  whatever code the response carried.
\<close>

lemma error_response_last_error:
  assumes "\<not> mock_mode s" and "connected s" and "client s = Some c"
    and "request_result w (tick s) = Returns (ErrorResponse exception_code text)"
  shows "fst (read_holding_registers w a n s) =
           Inl (SA32CommunicationError
             (''Erreur inattendue lors de la lecture: '' @
              ''Erreur Modbus lors de la lecture: '' @ text)) \<and>
         code (last_error (snd (read_holding_registers w a n s))) = - 3"
  using assms
  by (simp add: read_holding_registers_def ensure_connected_def read_locked_unfold Let_def
      except_clauses_def read_try_def client_request_def response_error_def)

text \<open>
  C2: on a connected driver that is not in mock mode, a read answered by an exception
  response of code 2 fails with a \<open>SA32CommunicationError\<close>, but the last error that
  is left has the code -3 of the \<^verbatim>\<open>except Exception\<close> clause, which caught the
  exception raised for the response, and not the code 2 that the device reported.
\<close>

theorem error_response_code_overwritten:
  "connected connected_tcp_session \<and> \<not> mock_mode connected_tcp_session \<and>
   fst (read_holding_registers illegal_address_world 1000 1 connected_tcp_session) =
     Inl (SA32CommunicationError
       ''Erreur inattendue lors de la lecture: Erreur Modbus lors de la lecture: Exception Response(131, 3, IllegalAddress)'') \<and>
   code (last_error (snd (read_holding_registers illegal_address_world 1000 1
                            connected_tcp_session))) = - 3"
  by (simp add: illegal_address_world_def connected_tcp_session_def tcp_session_def scenario_defs driver_defs Let_def)

text \<open>
  When \<^verbatim>\<open>close()\<close> raises, \<^verbatim>\<open>disconnect\<close> adds the lock and the close to
  the trace and nothing else.
\<close>

lemma disconnect_close_raises:
  assumes "\<not> mock_mode s" and "connected s" and "client s = Some c"
    and "close_result w (tick s) = Some e"
  shows "new_events s (snd (disconnect w s)) = [LockAcquire, ClientClose, LockRelease] \<and>
         \<not> connected (snd (disconnect w s)) \<and> client (snd (disconnect w s)) = None"
  using assms
  by (simp add: disconnect_unfold Let_def new_events_def)

text \<open>
  C6: on a connected driver that is not in mock mode and has a callback registered for
  \<^verbatim>\<open>on_disconnect\<close>, a \<^verbatim>\<open>disconnect()\<close> whose \<^verbatim>\<open>close()\<close> raises leaves
  the driver disconnected with no client, but dispatches nothing: the trace holds the lock
  and the close only. With a \<^verbatim>\<open>close()\<close> that returns, the event is dispatched.
\<close>

theorem disconnect_close_raises_no_event:
  "connected watched_tcp_session \<and> \<not> mock_mode watched_tcp_session \<and>
   callbacks watched_tcp_session ''on_disconnect'' = Some [1] \<and>
   \<not> connected (snd (disconnect close_failing_world watched_tcp_session)) \<and>
   client (snd (disconnect close_failing_world watched_tcp_session)) = None \<and>
   drop (length (trace watched_tcp_session))
     (trace (snd (disconnect close_failing_world watched_tcp_session))) =
     [LockAcquire, ClientClose, LockRelease] \<and>
   drop (length (trace watched_tcp_session))
     (trace (snd (disconnect quiet_world watched_tcp_session))) =
     [LockAcquire, ClientClose, Dispatch ''on_disconnect'' NoData [1], LockRelease]"
  by (simp add: close_failing_world_def quiet_world_def watched_tcp_session_def tcp_session_def scenario_defs driver_defs Let_def)

end
